theory Spec2Isabelle
  imports
    Complex_Main
    "HOL-Library.Word"
    "HOL-Library.Sublist"
    "HOL-Library.Char_ord"
    "HOL-Library.List_Lexorder"
begin

unbundle bit_operations_syntax

section \<open>ContextSubstrate: the content-addressed store and what is built on it\<close>

text \<open>
  A shallow embedding of the Go packages \<^verbatim>\<open>store\<close>, \<^verbatim>\<open>pack\<close>, \<^verbatim>\<open>sharing\<close>,
  \<^verbatim>\<open>replay\<close>, \<^verbatim>\<open>delta\<close> and \<^verbatim>\<open>optimize\<close>. Go strings and byte slices are
  \<open>char list\<close>s (one \<open>char\<close> per byte, so \<open>length\<close> is Go's \<open>len\<close>). A function that returns
  \<open>(T, error)\<close> returns \<open>error + T\<close> here, with \<open>Inl\<close> the error. The standard library is
  not part of the repository: SHA-256 is a parameter \<open>sha\<close> of every function that hashes,
  of type \<open>bytes \<Rightarrow> 256 word\<close> (the 32 bytes of \<^verbatim>\<open>sha256.Sum256\<close>, big-endian).
\<close>

type_synonym bytes = string

subsection \<open>Errors\<close>

text \<open>One constructor for each \<^verbatim>\<open>fmt.Errorf\<close> of the packages, carrying its arguments.\<close>

datatype error =
    ExpectedPrefix string        \<comment> \<open>invalid hash reference: expected sha256: prefix, got q\<close>
  | ExpectedLength nat           \<comment> \<open>invalid hash reference: expected 64 hex chars, got n\<close>
  | BadHexEncoding               \<comment> \<open>invalid hash reference: bad hex encoding\<close>
  | InvalidHashReference string  \<comment> \<open>invalid hash reference: q\<close>
  | InvalidHash string           \<comment> \<open>invalid hash: q\<close>
  | NotValidHex string           \<comment> \<open>invalid hash prefix: q is not valid hex\<close>
  | PrefixTooShort nat           \<comment> \<open>hash prefix too short: need at least 4 characters, got n\<close>
  | NoPacksFound                 \<comment> \<open>no packs found\<close>
  | ReadingPacksIndex            \<comment> \<open>reading packs index: ...\<close>
  | NoPackFound string           \<comment> \<open>no pack found with prefix q\<close>
  | AmbiguousPrefix string nat   \<comment> \<open>ambiguous hash prefix q: matches n packs\<close>
  | HexTooShort string           \<comment> \<open>hash hex too short: q\<close>
  | BlobNotFound string          \<comment> \<open>blob not found: short\<close>
  | ReadingBlob                  \<comment> \<open>reading blob: ...\<close>
  | IntegrityCheckFailed string string
                                 \<comment> \<open>blob integrity check failed: expected s, got s'\<close>
  | PackNotFound string          \<comment> \<open>pack not found: short\<close>
  | ParsingPackManifest          \<comment> \<open>parsing pack manifest: ...\<close>
  | ReadingDraft                 \<comment> \<open>reading draft: ...\<close>
  | ParsingDraft                 \<comment> \<open>parsing draft: ...\<close>
  | DraftHasNoParent             \<comment> \<open>draft has no parent reference\<close>
  | MissingPathParameter         \<comment> \<open>read_file: missing or invalid 'path' parameter\<close>
  | FileExists                   \<comment> \<open>the \<^verbatim>\<open>os.ErrExist\<close> of an exclusive create\<close>
  | FileSystem                   \<comment> \<open>any other error of the file system\<close>
  | ReadFailed                   \<comment> \<open>\<^verbatim>\<open>ReadRecords\<close> could not open, scan or parse a file\<close>
  | GitFailed                    \<comment> \<open>the git subprocess failed\<close>
  | Wrap string error            \<comment> \<open>\<^verbatim>\<open>fmt.Errorf("<context>: %w", err)\<close>\<close>
  | Panic                        \<comment> \<open>a run-time panic (slice bounds out of range)\<close>

subsection \<open>The store directory\<close>

text \<open>
  A file as \<^verbatim>\<open>os.ReadFile\<close> and \<^verbatim>\<open>os.Stat\<close> see it, and a directory as
  \<^verbatim>\<open>os.ReadDir\<close> sees it. The state of a store root is the files below
  \<^verbatim>\<open>objects/\<close>, by their path relative to the root, and the \<^verbatim>\<open>packs/\<close> directory,
  by the names of its entries (the code never reads what a registry file holds).
\<close>

datatype fnode = Absent | Denied | Content bytes

datatype dnode = DirMissing | DirDenied | DirEntries "string list"

record store =
  objects :: "string \<Rightarrow> fnode"
  packs :: dnode

subsection \<open>Package store: hash references\<close>

definition hashPrefix :: string where
  "hashPrefix = ''sha256:''"

definition hexdigit :: "nat \<Rightarrow> char" where
  "hexdigit n = ''0123456789abcdef'' ! (n mod 16)"

text \<open>\<^verbatim>\<open>hex.EncodeToString\<close> of the 32 bytes of a digest: 64 digits, high nibble first.\<close>

definition hex_of_digest :: "256 word \<Rightarrow> string" where
  "hex_of_digest w =
     map (\<lambda>i. hexdigit (unat (drop_bit (4 * (63 - i)) w AND 15))) [0..<64]"

definition HashContent :: "(bytes \<Rightarrow> 256 word) \<Rightarrow> bytes \<Rightarrow> string" where
  "HashContent sha data = hashPrefix @ hex_of_digest (sha data)"

definition is_hex_char :: "char \<Rightarrow> bool" where
  "is_hex_char c \<longleftrightarrow>
     (CHR ''0'' \<le> c \<and> c \<le> CHR ''9'') \<or> (CHR ''a'' \<le> c \<and> c \<le> CHR ''f'') \<or>
     (CHR ''A'' \<le> c \<and> c \<le> CHR ''F'')"

text \<open>
  \<^verbatim>\<open>hex.DecodeString\<close> succeeds exactly on an even number of hexadecimal digits, of
  either case.
\<close>

definition hex_decodes :: "string \<Rightarrow> bool" where
  "hex_decodes s \<longleftrightarrow> even (length s) \<and> list_all is_hex_char s"

definition ParseHash :: "string \<Rightarrow> error + (string \<times> string)" where
  "ParseHash ref =
     (if \<not> prefix hashPrefix ref then Inl (ExpectedPrefix ref)
      else let hexStr = drop (length hashPrefix) ref in
        if length hexStr \<noteq> 64 then Inl (ExpectedLength (length hexStr))
        else if \<not> hex_decodes hexStr then Inl BadHexEncoding
        else Inr (''sha256'', hexStr))"

definition ValidateHash :: "string \<Rightarrow> bool" where
  "ValidateHash ref = (case ParseHash ref of Inl _ \<Rightarrow> False | Inr _ \<Rightarrow> True)"

definition NormalizeHash :: "string \<Rightarrow> error + string" where
  "NormalizeHash ref =
     (if prefix hashPrefix ref then
        (if \<not> ValidateHash ref then Inl (InvalidHashReference ref) else Inr ref)
      else let full = hashPrefix @ ref in
        if \<not> ValidateHash full then Inl (InvalidHash ref) else Inr full)"

definition ShortHash :: "string \<Rightarrow> nat \<Rightarrow> string" where
  "ShortHash ref n =
     (case ParseHash ref of
        Inl _ \<Rightarrow> ref
      | Inr (_, hexStr) \<Rightarrow> take (if n > length hexStr then length hexStr else n) hexStr)"

definition stripCtxPrefix :: "string \<Rightarrow> string" where
  "stripCtxPrefix ref =
     (if prefix ''ctx://'' ref then drop (length ''ctx://'') ref else ref)"

definition isHexString :: "string \<Rightarrow> bool" where
  "isHexString s \<longleftrightarrow> (if length s = 0 then False else list_all is_hex_char s)"

definition ResolveHash :: "store \<Rightarrow> string \<Rightarrow> error + string" where
  "ResolveHash st ref0 =
     (let ref = stripCtxPrefix ref0 in
      case NormalizeHash ref of
        Inr normalized \<Rightarrow> Inr normalized
      | Inl _ \<Rightarrow>
          if \<not> isHexString ref then Inl (NotValidHex ref)
          else if length ref < 4 then Inl (PrefixTooShort (length ref))
          else (case packs st of
              DirMissing \<Rightarrow> Inl NoPacksFound
            | DirDenied \<Rightarrow> Inl ReadingPacksIndex
            | DirEntries entries \<Rightarrow>
                (let matches = map (\<lambda>name. hashPrefix @ name) (filter (prefix ref) entries) in
                 case matches of
                   [] \<Rightarrow> Inl (NoPackFound ref)
                 | [m] \<Rightarrow> Inr m
                 | _ \<Rightarrow> Inl (AmbiguousPrefix ref (length matches)))))"

subsection \<open>Package store: blobs\<close>

text \<open>
  \<^verbatim>\<open>blobPath\<close>, relative to the store root: \<^verbatim>\<open>objects/<2 digits>/<62 digits>\<close>. The
  length test of the source cannot fail after \<^verbatim>\<open>ParseHash\<close>; it is kept as it is.
\<close>

definition blobPath :: "string \<Rightarrow> error + string" where
  "blobPath ref =
     (case ParseHash ref of
        Inl e \<Rightarrow> Inl e
      | Inr (_, hexStr) \<Rightarrow>
          if length hexStr < 2 then Inl (HexTooShort hexStr)
          else Inr (''objects/'' @ take 2 hexStr @ ''/'' @ drop 2 hexStr))"

text \<open>
  \<^verbatim>\<open>WriteBlob\<close> on a file system whose writes succeed: a path that \<^verbatim>\<open>os.Stat\<close> finds
  is left as it is, whatever it holds; otherwise the file is created with the data.
\<close>

definition WriteBlob :: "(bytes \<Rightarrow> 256 word) \<Rightarrow> store \<Rightarrow> bytes \<Rightarrow> error + (string \<times> store)" where
  "WriteBlob sha st data =
     (let ref = HashContent sha data in
      case blobPath ref of
        Inl e \<Rightarrow> Inl e
      | Inr path \<Rightarrow>
          if objects st path \<noteq> Absent then Inr (ref, st)
          else Inr (ref, st\<lparr>objects := (objects st)(path := Content data)\<rparr>))"

definition ReadBlob :: "(bytes \<Rightarrow> 256 word) \<Rightarrow> store \<Rightarrow> string \<Rightarrow> error + bytes" where
  "ReadBlob sha st ref =
     (case blobPath ref of
        Inl e \<Rightarrow> Inl e
      | Inr path \<Rightarrow>
          (case objects st path of
             Absent \<Rightarrow> Inl (BlobNotFound (ShortHash ref 12))
           | Denied \<Rightarrow> Inl ReadingBlob
           | Content data \<Rightarrow>
               (let actual = HashContent sha data in
                if actual \<noteq> ref
                then Inl (IntegrityCheckFailed (ShortHash ref 12) (ShortHash actual 12))
                else Inr data)))"

definition BlobExists :: "store \<Rightarrow> string \<Rightarrow> bool" where
  "BlobExists st ref =
     (case blobPath ref of Inl _ \<Rightarrow> False | Inr path \<Rightarrow> objects st path \<noteq> Absent)"

subsection \<open>JSON documents\<close>

text \<open>
  The documents of \<^verbatim>\<open>encoding/json\<close>, as trees. A number is kept as its literal. An
  object keeps its members in the order they are printed. A Go value of type
  \<^verbatim>\<open>interface{}\<close> (a step's or a model's parameter) is such a tree too; a Go map is an
  object whose keys are distinct and whose order \<^verbatim>\<open>json.Marshal\<close> fixes by sorting.
\<close>

datatype json =
    JNull | JBool bool | JNum string | JStr string | JArr "json list"
  | JObj "(string \<times> json) list"

fun join :: "string \<Rightarrow> string list \<Rightarrow> string" where
  "join sep [] = []"
| "join sep [x] = x"
| "join sep (x # y # ys) = x @ sep @ join sep (y # ys)"

text \<open>
  The string literals of \<^verbatim>\<open>json.Marshal\<close> (HTML escaping on, as by default). Of the
  ASCII bytes, quote and backslash are escaped, and the control characters and \<^verbatim>\<open><\<close>,
  \<^verbatim>\<open>>\<close>, \<^verbatim>\<open>&\<close> are written \<^verbatim>\<open>\u00XX\<close> but for the five short forms.
\<close>

definition escape_byte :: "char \<Rightarrow> string" where
  "escape_byte c =
     (if c = CHR 0x22 \<or> c = CHR 0x5C then [CHR 0x5C, c]
      else if c = CHR 0x08 then [CHR 0x5C, CHR ''b'']
      else if c = CHR 0x0C then [CHR 0x5C, CHR ''f'']
      else if c = CHR 0x0A then [CHR 0x5C, CHR ''n'']
      else if c = CHR 0x0D then [CHR 0x5C, CHR ''r'']
      else if c = CHR 0x09 then [CHR 0x5C, CHR ''t'']
      else if of_char c < (0x20 :: nat) \<or> c = CHR ''<'' \<or> c = CHR ''>'' \<or> c = CHR ''&''
        then [CHR 0x5C, CHR ''u'', CHR ''0'', CHR ''0'',
              hexdigit (of_char c div 16), hexdigit (of_char c mod 16)]
      else [c])"

text \<open>
  \<^verbatim>\<open>utf8.DecodeRuneInString\<close> at the head of a string: the number of bytes of the
  rune encoded there, and 0 where the bytes are not a valid encoding (the decoder then
  takes one byte as U+FFFD).
\<close>

definition between :: "nat \<Rightarrow> char \<Rightarrow> nat \<Rightarrow> bool" where
  "between lo c hi \<longleftrightarrow> lo \<le> of_char c \<and> of_char c \<le> hi"

fun utf8_size :: "string \<Rightarrow> nat" where
  "utf8_size [] = 0"
| "utf8_size (b0 # s) =
     (if of_char b0 < (0x80 :: nat) then 1
      else if between 0xC2 b0 0xDF then
        (case s of b1 # _ \<Rightarrow> if between 0x80 b1 0xBF then 2 else 0 | _ \<Rightarrow> 0)
      else if between 0xE0 b0 0xEF then
        (case s of
           b1 # b2 # _ \<Rightarrow>
             if between (if b0 = CHR 0xE0 then 0xA0 else 0x80) b1
                        (if b0 = CHR 0xED then 0x9F else 0xBF) \<and>
                between 0x80 b2 0xBF
             then 3 else 0
         | _ \<Rightarrow> 0)
      else if between 0xF0 b0 0xF4 then
        (case s of
           b1 # b2 # b3 # _ \<Rightarrow>
             if between (if b0 = CHR 0xF0 then 0x90 else 0x80) b1
                        (if b0 = CHR 0xF4 then 0x8F else 0xBF) \<and>
                between 0x80 b2 0xBF \<and> between 0x80 b3 0xBF
             then 4 else 0
         | _ \<Rightarrow> 0)
      else 0)"

text \<open>
  The body of a string literal. Outside ASCII a valid rune is copied, but U+2028 and
  U+2029 are written \<^verbatim>\<open>\u2028\<close> and \<^verbatim>\<open>\u2029\<close>, and a byte that starts no valid rune
  is written \<^verbatim>\<open>\ufffd\<close>. The first argument counts the bytes still to pass of the rune
  at hand, the second says whether they are copied.
\<close>

fun escape_from :: "nat \<Rightarrow> bool \<Rightarrow> string \<Rightarrow> string" where
  "escape_from k copy [] = []"
| "escape_from (Suc k) copy (c # s) =
     (if copy then c # escape_from k copy s else escape_from k copy s)"
| "escape_from 0 copy (c # s) =
     (if of_char c < (0x80 :: nat) then escape_byte c @ escape_from 0 True s
      else
        (case utf8_size (c # s) of
           0 \<Rightarrow> [CHR 0x5C, CHR ''u'', CHR ''f'', CHR ''f'', CHR ''f'', CHR ''d''] @
                 escape_from 0 True s
         | Suc n \<Rightarrow>
             if take 3 (c # s) = [CHR 0xE2, CHR 0x80, CHR 0xA8]
             then [CHR 0x5C, CHR ''u'', CHR ''2'', CHR ''0'', CHR ''2'', CHR ''8''] @
                  escape_from n False s
             else if take 3 (c # s) = [CHR 0xE2, CHR 0x80, CHR 0xA9]
             then [CHR 0x5C, CHR ''u'', CHR ''2'', CHR ''0'', CHR ''2'', CHR ''9''] @
                  escape_from n False s
             else c # escape_from n True s))"

definition quote :: "string \<Rightarrow> string" where
  "quote s = [CHR 0x22] @ escape_from 0 True s @ [CHR 0x22]"

text \<open>The bytes of a document: no white space, members and elements in the tree's order.\<close>

fun encode :: "json \<Rightarrow> bytes" where
  "encode JNull = ''null''"
| "encode (JBool b) = (if b then ''true'' else ''false'')"
| "encode (JNum n) = n"
| "encode (JStr s) = quote s"
| "encode (JArr xs) = ''['' @ join '','' (map encode xs) @ '']''"
| "encode (JObj kvs) =
     ''{'' @ join '','' (map (\<lambda>(k, v). quote k @ '':'' @ encode v) kvs) @ ''}''"

text \<open>
  \<^verbatim>\<open>sortKeys\<close> of package pack. Its result is a tree of Go maps, which
  \<^verbatim>\<open>json.Marshal\<close> prints with the keys in byte order at every depth: the order of
  \<open>sort_key fst\<close> here.
\<close>

fun sortKeys :: "json \<Rightarrow> json" where
  "sortKeys (JObj kvs) = JObj (sort_key fst (map (\<lambda>(k, v). (k, sortKeys v)) kvs))"
| "sortKeys (JArr xs) = JArr (map sortKeys xs)"
| "sortKeys v = v"

text \<open>
  What \<^verbatim>\<open>json.Unmarshal\<close> into an \<^verbatim>\<open>interface{}\<close> reads back from the bytes that
  \<^verbatim>\<open>json.Marshal\<close> has printed for a tree. A string comes back with U+FFFD (the bytes
  EF BF BD) for every byte that started no valid rune. An object comes back as a map: of
  two members whose keys have become equal the later one stays. A number comes back as a
  float64, which \<^verbatim>\<open>json.Marshal\<close> prints in its shortest form: the parameter \<open>f64\<close>
  is that change of a literal (the identity on the integers up to \<open>2^53\<close> in absolute
  value).
\<close>

fun sanitize_from :: "nat \<Rightarrow> string \<Rightarrow> string" where
  "sanitize_from k [] = []"
| "sanitize_from (Suc k) (c # s) = c # sanitize_from k s"
| "sanitize_from 0 (c # s) =
     (if of_char c < (0x80 :: nat) then c # sanitize_from 0 s
      else
        (case utf8_size (c # s) of
           0 \<Rightarrow> [CHR 0xEF, CHR 0xBF, CHR 0xBD] @ sanitize_from 0 s
         | Suc n \<Rightarrow> c # sanitize_from n s))"

fun last_wins :: "(string \<times> 'a) list \<Rightarrow> (string \<times> 'a) list" where
  "last_wins [] = []"
| "last_wins ((k, v) # kvs) =
     (if k \<in> fst ` set kvs then last_wins kvs else (k, v) # last_wins kvs)"

fun reparse :: "(string \<Rightarrow> string) \<Rightarrow> json \<Rightarrow> json" where
  "reparse f64 (JNum n) = JNum (f64 n)"
| "reparse f64 (JStr s) = JStr (sanitize_from 0 s)"
| "reparse f64 (JArr xs) = JArr (map (reparse f64) xs)"
| "reparse f64 (JObj kvs) =
     JObj (last_wins (map (\<lambda>(k, v). (sanitize_from 0 k, reparse f64 v)) kvs))"
| "reparse f64 v = v"

function show_nat :: "nat \<Rightarrow> string" where
  "show_nat n = (if n < 10 then [hexdigit n] else show_nat (n div 10) @ [hexdigit (n mod 10)])"
  by pat_completeness auto
termination
  by (relation "measure id") auto

definition show_int :: "int \<Rightarrow> string" where
  "show_int i = (if i < 0 then ''-'' @ show_nat (nat (- i)) else show_nat (nat i))"

subsection \<open>Package pack: the manifest and the execution log\<close>

text \<open>
  The structs of \<^verbatim>\<open>pack.go\<close> and \<^verbatim>\<open>parse.go\<close>; a field \<^verbatim>\<open>F\<close> of struct \<^verbatim>\<open>S\<close> is
  \<open>s_F\<close> with a short prefix for the struct, since several structs share field names. A
  \<^verbatim>\<open>time.Time\<close> is its RFC 3339 text, the form \<^verbatim>\<open>json.Marshal\<close> gives it. A map is
  \<open>None\<close> when nil. A slice is a list: the slices of a manifest are made by \<^verbatim>\<open>make\<close>
  (in \<^verbatim>\<open>CreatePack\<close>) or by \<^verbatim>\<open>json.Unmarshal\<close> of an array, and are not nil. A nil
  slice, which \<^verbatim>\<open>json.Marshal\<close> would print as \<^verbatim>\<open>null\<close>, has no value here.
\<close>

type_synonym gotime = string

record Model =
  md_Identifier :: string
  md_Parameters :: "(string \<times> json) list option"

record Prompt =
  pr_Role :: string
  pr_ContentRef :: string

record Input =
  in_Name :: string
  in_ContentRef :: string
  in_Size :: int

record Step =
  sp_Index :: int
  sp_Type :: string
  sp_Tool :: string
  sp_Parameters :: "(string \<times> json) list option"
  sp_OutputRef :: string
  sp_Deterministic :: bool
  sp_Timestamp :: gotime

record Output =
  out_Name :: string
  out_ContentRef :: string
  out_ContextPack :: string

record Environment =
  env_OS :: string
  env_Runtime :: string
  env_ToolVersions :: "(string \<times> string) list option"

record Pack =
  pk_Version :: string
  pk_Hash :: string
  pk_Created :: gotime
  pk_Model :: Model
  pk_SystemPrompt :: string
  pk_Prompts :: "Prompt list"
  pk_Inputs :: "Input list"
  pk_Steps :: "Step list"
  pk_Outputs :: "Output list"
  pk_Environment :: Environment
  pk_Parent :: string

record LogModel =
  lm_Identifier :: string
  lm_Parameters :: "(string \<times> json) list option"

record LogPrompt =
  lp_Role :: string
  lp_Content :: string

record LogInput =
  li_Name :: string
  li_Content :: string

record LogStep =
  ls_Index :: int
  ls_Type :: string
  ls_Tool :: string
  ls_Parameters :: "(string \<times> json) list option"
  ls_Output :: string
  ls_Deterministic :: bool
  ls_Timestamp :: gotime

record LogOutput =
  lo_Name :: string
  lo_Content :: string

record LogEnvironment =
  le_OS :: string
  le_Runtime :: string
  le_ToolVersions :: "(string \<times> string) list option"

record ExecutionLog =
  lg_Model :: LogModel
  lg_SystemPrompt :: string
  lg_Prompts :: "LogPrompt list"
  lg_Inputs :: "LogInput list"
  lg_Steps :: "LogStep list"
  lg_Outputs :: "LogOutput list"
  lg_Environment :: LogEnvironment

subsection \<open>What json.Marshal prints for a manifest\<close>

text \<open>
  A struct is printed with its fields in the order of their declaration, under the names
  of their \<^verbatim>\<open>json\<close> tags, an \<^verbatim>\<open>omitempty\<close> string left out when empty. A map is printed
  with its keys sorted, at every depth, and \<^verbatim>\<open>null\<close> when nil.
\<close>

definition marshal_params :: "(string \<times> json) list option \<Rightarrow> json" where
  "marshal_params m = (case m of None \<Rightarrow> JNull | Some kvs \<Rightarrow> sortKeys (JObj kvs))"

definition marshal_strings :: "(string \<times> string) list option \<Rightarrow> json" where
  "marshal_strings m =
     (case m of None \<Rightarrow> JNull
      | Some kvs \<Rightarrow> JObj (sort_key fst (map (\<lambda>(k, v). (k, JStr v)) kvs)))"

definition marshal_Model :: "Model \<Rightarrow> json" where
  "marshal_Model m =
     JObj [(''identifier'', JStr (md_Identifier m)),
           (''parameters'', marshal_params (md_Parameters m))]"

definition marshal_Prompt :: "Prompt \<Rightarrow> json" where
  "marshal_Prompt p =
     JObj [(''role'', JStr (pr_Role p)), (''content_ref'', JStr (pr_ContentRef p))]"

definition marshal_Input :: "Input \<Rightarrow> json" where
  "marshal_Input i =
     JObj [(''name'', JStr (in_Name i)), (''content_ref'', JStr (in_ContentRef i)),
           (''size'', JNum (show_int (in_Size i)))]"

definition marshal_Step :: "Step \<Rightarrow> json" where
  "marshal_Step s =
     JObj [(''index'', JNum (show_int (sp_Index s))),
           (''type'', JStr (sp_Type s)),
           (''tool'', JStr (sp_Tool s)),
           (''parameters'', marshal_params (sp_Parameters s)),
           (''output_ref'', JStr (sp_OutputRef s)),
           (''deterministic'', JBool (sp_Deterministic s)),
           (''timestamp'', JStr (sp_Timestamp s))]"

definition marshal_Output :: "Output \<Rightarrow> json" where
  "marshal_Output out =
     JObj ([(''name'', JStr (out_Name out)), (''content_ref'', JStr (out_ContentRef out))] @
           (if out_ContextPack out = [] then []
            else [(''context_pack'', JStr (out_ContextPack out))]))"

definition marshal_Environment :: "Environment \<Rightarrow> json" where
  "marshal_Environment e =
     JObj [(''os'', JStr (env_OS e)), (''runtime'', JStr (env_Runtime e)),
           (''tool_versions'', marshal_strings (env_ToolVersions e))]"

definition marshal_Pack :: "Pack \<Rightarrow> json" where
  "marshal_Pack p =
     JObj ([(''version'', JStr (pk_Version p)),
            (''hash'', JStr (pk_Hash p)),
            (''created'', JStr (pk_Created p)),
            (''model'', marshal_Model (pk_Model p)),
            (''system_prompt'', JStr (pk_SystemPrompt p)),
            (''prompts'', JArr (map marshal_Prompt (pk_Prompts p))),
            (''inputs'', JArr (map marshal_Input (pk_Inputs p))),
            (''steps'', JArr (map marshal_Step (pk_Steps p))),
            (''outputs'', JArr (map marshal_Output (pk_Outputs p))),
            (''environment'', marshal_Environment (pk_Environment p))] @
           (if pk_Parent p = [] then [] else [(''parent'', JStr (pk_Parent p))]))"

text \<open>\<^verbatim>\<open>json.Marshal(p)\<close> for a manifest \<open>p\<close>.\<close>

definition json_Marshal :: "Pack \<Rightarrow> bytes" where
  "json_Marshal p = encode (marshal_Pack p)"

subsection \<open>Package pack: creating, registering and loading\<close>

text \<open>
  \<^verbatim>\<open>canonicalJSON\<close>: marshal, parse into an \<^verbatim>\<open>interface{}\<close>, \<^verbatim>\<open>sortKeys\<close>, marshal
  again.
\<close>

definition canonicalJSON :: "(string \<Rightarrow> string) \<Rightarrow> Pack \<Rightarrow> bytes" where
  "canonicalJSON f64 p = encode (sortKeys (reparse f64 (marshal_Pack p)))"

definition CanonicalHash :: "(bytes \<Rightarrow> 256 word) \<Rightarrow> (string \<Rightarrow> string) \<Rightarrow> Pack \<Rightarrow> string" where
  "CanonicalHash sha f64 p = HashContent sha (canonicalJSON f64 (p\<lparr>pk_Hash := []\<rparr>))"

text \<open>
  The four loops of \<^verbatim>\<open>CreatePack\<close> that store the contents of the log's entries, as
  one function: \<open>ctx\<close> wraps an error of entry \<open>i\<close>, \<open>content\<close> is what is stored for an
  entry (\<open>None\<close> for a step with no output, which stores nothing and whose reference stays
  empty) and \<open>build\<close> makes the manifest's entry from the log's entry and the reference.
\<close>

fun storeEach ::
  "(bytes \<Rightarrow> 256 word) \<Rightarrow> (nat \<Rightarrow> string) \<Rightarrow> ('a \<Rightarrow> bytes option) \<Rightarrow> ('a \<Rightarrow> string \<Rightarrow> 'b) \<Rightarrow>
   store \<Rightarrow> nat \<Rightarrow> 'a list \<Rightarrow> error + ('b list \<times> store)" where
  "storeEach sha ctx content build st i [] = Inr ([], st)"
| "storeEach sha ctx content build st i (x # xs) =
     (case content x of
        None \<Rightarrow>
          (case storeEach sha ctx content build st (Suc i) xs of
             Inl e \<Rightarrow> Inl e
           | Inr (ys, st') \<Rightarrow> Inr (build x [] # ys, st'))
      | Some data \<Rightarrow>
          (case WriteBlob sha st data of
             Inl e \<Rightarrow> Inl (Wrap (ctx i) e)
           | Inr (ref, st1) \<Rightarrow>
               (case storeEach sha ctx content build st1 (Suc i) xs of
                  Inl e \<Rightarrow> Inl e
                | Inr (ys, st') \<Rightarrow> Inr (build x ref # ys, st'))))"

definition CreatePack ::
  "(bytes \<Rightarrow> 256 word) \<Rightarrow> (string \<Rightarrow> string) \<Rightarrow> gotime \<Rightarrow> store \<Rightarrow> ExecutionLog \<Rightarrow>
   error + (Pack \<times> store)" where
  "CreatePack sha f64 now st0 xlog =
     (case WriteBlob sha st0 (lg_SystemPrompt xlog) of
        Inl e \<Rightarrow> Inl (Wrap ''storing system prompt'' e)
      | Inr (sysPromptRef, st1) \<Rightarrow>
     (case storeEach sha (\<lambda>i. ''storing prompt '' @ show_nat i)
             (\<lambda>p. Some (lp_Content p))
             (\<lambda>p ref. \<lparr>pr_Role = lp_Role p, pr_ContentRef = ref\<rparr>) st1 0 (lg_Prompts xlog) of
        Inl e \<Rightarrow> Inl e
      | Inr (prompts, st2) \<Rightarrow>
     (case storeEach sha (\<lambda>i. ''storing input '' @ show_nat i)
             (\<lambda>inp. Some (li_Content inp))
             (\<lambda>inp ref. \<lparr>in_Name = li_Name inp, in_ContentRef = ref,
                          in_Size = int (length (li_Content inp))\<rparr>) st2 0 (lg_Inputs xlog) of
        Inl e \<Rightarrow> Inl e
      | Inr (inputs, st3) \<Rightarrow>
     (case storeEach sha (\<lambda>i. ''storing step '' @ show_nat i @ '' output'')
             (\<lambda>s. if ls_Output s \<noteq> [] then Some (ls_Output s) else None)
             (\<lambda>s outputRef. \<lparr>sp_Index = ls_Index s, sp_Type = ls_Type s, sp_Tool = ls_Tool s,
                          sp_Parameters = ls_Parameters s, sp_OutputRef = outputRef,
                          sp_Deterministic = ls_Deterministic s,
                          sp_Timestamp = ls_Timestamp s\<rparr>) st3 0 (lg_Steps xlog) of
        Inl e \<Rightarrow> Inl e
      | Inr (steps, st4) \<Rightarrow>
     (case storeEach sha (\<lambda>i. ''storing output '' @ show_nat i)
             (\<lambda>out. Some (lo_Content out))
             (\<lambda>out ref. \<lparr>out_Name = lo_Name out, out_ContentRef = ref, out_ContextPack = []\<rparr>)
             st4 0 (lg_Outputs xlog) of
        Inl e \<Rightarrow> Inl e
      | Inr (outputs, st5) \<Rightarrow>
     (let p = \<lparr>pk_Version = ''0.1'',
               pk_Hash = [],
               pk_Created = now,
               pk_Model = \<lparr>md_Identifier = lm_Identifier (lg_Model xlog),
                            md_Parameters = lm_Parameters (lg_Model xlog)\<rparr>,
               pk_SystemPrompt = sysPromptRef,
               pk_Prompts = prompts,
               pk_Inputs = inputs,
               pk_Steps = steps,
               pk_Outputs = outputs,
               pk_Environment = \<lparr>env_OS = le_OS (lg_Environment xlog),
                                  env_Runtime = le_Runtime (lg_Environment xlog),
                                  env_ToolVersions = le_ToolVersions (lg_Environment xlog)\<rparr>,
               pk_Parent = []\<rparr>;
          manifestData = canonicalJSON f64 p
      in case WriteBlob sha st5 manifestData of
           Inl e \<Rightarrow> Inl (Wrap ''storing manifest'' e)
         | Inr (hash, st6) \<Rightarrow>
             Inr (p\<lparr>pk_Hash := hash,
                     pk_Outputs := map (\<lambda>out. out\<lparr>out_ContextPack := hash\<rparr>) (pk_Outputs p)\<rparr>,
                  st6)))))))"

text \<open>
  \<^verbatim>\<open>RegisterPack\<close>: an exclusive create of \<^verbatim>\<open>packs/<hex>\<close>, which fails when the name
  is taken or the directory cannot be written. \<^verbatim>\<open>os.ReadDir\<close> lists a directory sorted
  by name, so the new name is put in its place.
\<close>

definition RegisterPack :: "store \<Rightarrow> string \<Rightarrow> error + store" where
  "RegisterPack st hash =
     (case ParseHash hash of
        Inl e \<Rightarrow> Inl e
      | Inr (_, hexStr) \<Rightarrow>
          (case packs st of
             DirEntries names \<Rightarrow>
               if hexStr \<in> set names then Inl FileExists
               else Inr (st\<lparr>packs := DirEntries (insort hexStr names)\<rparr>)
           | _ \<Rightarrow> Inl FileSystem))"

text \<open>
  \<^verbatim>\<open>LoadPack\<close>. The parameter \<open>unmarshal\<close> is \<^verbatim>\<open>json.Unmarshal(data, &p)\<close> for a
  manifest \<open>p\<close>, \<open>None\<close> when it returns an error.
\<close>

definition LoadPack ::
  "(bytes \<Rightarrow> 256 word) \<Rightarrow> (bytes \<Rightarrow> Pack option) \<Rightarrow> store \<Rightarrow> string \<Rightarrow> error + Pack" where
  "LoadPack sha unmarshal st ref =
     (case ResolveHash st ref of
        Inl e \<Rightarrow> Inl (Wrap ''invalid hash'' e)
      | Inr normalized \<Rightarrow>
          (case ReadBlob sha st normalized of
             Inl _ \<Rightarrow> Inl (PackNotFound (ShortHash normalized 12))
           | Inr data \<Rightarrow>
               (case unmarshal data of
                  None \<Rightarrow> Inl ParsingPackManifest
                | Some p \<Rightarrow> Inr (p\<lparr>pk_Hash := normalized\<rparr>))))"

subsection \<open>Package sharing: finalizing a draft\<close>

text \<open>
  \<^verbatim>\<open>os.Remove\<close> on the local file system \<open>world\<close> (a map from paths to files). Whether
  a file can be removed is decided by its directory, the parameter \<open>removable\<close>; the
  source ignores the error of a removal that fails.
\<close>

definition os_Remove :: "(string \<Rightarrow> bool) \<Rightarrow> (string \<Rightarrow> fnode) \<Rightarrow> string \<Rightarrow> string \<Rightarrow> fnode" where
  "os_Remove removable world path = (if removable path then world(path := Absent) else world)"

text \<open>
  \<^verbatim>\<open>FinalizeDraft\<close>. The draft is a file of the local file system, which the call
  removes at the end. The result is what the call returns together with the store and
  the file system it leaves: a failure to register comes after the blob is written and
  before the draft is removed.
\<close>

definition FinalizeDraft ::
  "(bytes \<Rightarrow> 256 word) \<Rightarrow> (bytes \<Rightarrow> Pack option) \<Rightarrow> (string \<Rightarrow> bool) \<Rightarrow> (string \<Rightarrow> fnode) \<Rightarrow>
   store \<Rightarrow> string \<Rightarrow> (error + Pack) \<times> store \<times> (string \<Rightarrow> fnode)" where
  "FinalizeDraft sha unmarshal removable world st draftPath =
     (case world draftPath of
        Absent \<Rightarrow> (Inl (Wrap ''reading draft'' FileSystem), st, world)
      | Denied \<Rightarrow> (Inl (Wrap ''reading draft'' FileSystem), st, world)
      | Content data \<Rightarrow>
     (case unmarshal data of
        None \<Rightarrow> (Inl ParsingDraft, st, world)
      | Some p0 \<Rightarrow>
          if pk_Parent p0 = [] then (Inl DraftHasNoParent, st, world)
          else
            (let p1 = p0\<lparr>pk_Hash := []\<rparr>;
                 canonicalData = json_Marshal p1
             in case WriteBlob sha st canonicalData of
                  Inl e \<Rightarrow> (Inl (Wrap ''storing pack'' e), st, world)
                | Inr (hash, st1) \<Rightarrow>
                    (let p2 = p1\<lparr>pk_Hash := hash\<rparr>
                     in case RegisterPack st1 hash of
                          Inl e \<Rightarrow>
                            if e \<noteq> FileExists
                            then (Inl (Wrap ''registering pack'' e), st1, world)
                            else (Inr p2, st1, os_Remove removable world draftPath)
                        | Inr st2 \<Rightarrow> (Inr p2, st2, os_Remove removable world draftPath)))))"

subsection \<open>Package replay\<close>

datatype FidelityLevel = FidelityExact | FidelityDegraded | FidelityFailed

datatype StepStatus = StepMatched | StepDiverged | StepFailed

record StepResult =
  sr_Index :: int
  sr_Tool :: string
  sr_Status :: StepStatus
  sr_ExpectedHash :: string
  sr_ActualHash :: string
  sr_Deterministic :: bool
  sr_Reason :: string

record DriftEntry =
  de_Type :: string
  de_Description :: string
  de_Expected :: string
  de_Actual :: string

record ReplayReport =
  rp_PackHash :: string
  rp_Fidelity :: FidelityLevel
  rp_Steps :: "StepResult list"
  rp_Drift :: "DriftEntry list"
  rp_StartTime :: gotime
  rp_EndTime :: gotime

text \<open>
  A \<^verbatim>\<open>ToolExecutor\<close> takes the tool's name and the step's parameters. The executors
  are a Go map from tool names. The message of an executor's error is the parameter
  \<open>errtext\<close> of \<^verbatim>\<open>ExecuteStep\<close> (\<^verbatim>\<open>%v\<close> of an error of the standard library).
\<close>

type_synonym ToolExecutor = "string \<Rightarrow> (string \<times> json) list option \<Rightarrow> error + bytes"

text \<open>
  \<^verbatim>\<open>params["path"].(string)\<close>: the lookup in a nil map finds nothing, and the assertion
  holds for a string only. \<^verbatim>\<open>os.ReadFile\<close> reads the local file system \<open>world\<close>.
\<close>

definition DefaultExecutors :: "(string \<Rightarrow> fnode) \<Rightarrow> (string \<rightharpoonup> ToolExecutor)" where
  "DefaultExecutors world =
     [''read_file'' \<mapsto>
        (\<lambda>tool params.
           case (case params of None \<Rightarrow> None | Some kvs \<Rightarrow> map_of kvs ''path'') of
             Some (JStr path) \<Rightarrow>
               (case world path of Content data \<Rightarrow> Inr data | _ \<Rightarrow> Inl FileSystem)
           | _ \<Rightarrow> Inl MissingPathParameter)]"

definition ExecuteStep ::
  "(bytes \<Rightarrow> 256 word) \<Rightarrow> (error \<Rightarrow> string) \<Rightarrow> Step \<Rightarrow> (string \<rightharpoonup> ToolExecutor) \<Rightarrow> StepResult" where
  "ExecuteStep sha errtext step executors =
     (let result = \<lparr>sr_Index = sp_Index step, sr_Tool = sp_Tool step, sr_Status = StepMatched,
                     sr_ExpectedHash = sp_OutputRef step, sr_ActualHash = [],
                     sr_Deterministic = sp_Deterministic step, sr_Reason = []\<rparr>
      in case executors (sp_Tool step) of
           None \<Rightarrow>
             result\<lparr>sr_Status := StepFailed,
                    sr_Reason := ''tool not available: '' @ sp_Tool step\<rparr>
         | Some executor \<Rightarrow>
             (case executor (sp_Tool step) (sp_Parameters step) of
                Inl err \<Rightarrow>
                  result\<lparr>sr_Status := StepFailed,
                         sr_Reason := ''execution error: '' @ errtext err\<rparr>
              | Inr output \<Rightarrow>
                  (let actualHash = HashContent sha output;
                       result = result\<lparr>sr_ActualHash := actualHash\<rparr>
                   in if actualHash = sp_OutputRef step
                      then result\<lparr>sr_Status := StepMatched\<rparr>
                      else result\<lparr>sr_Status := StepDiverged\<rparr>)))"

text \<open>\<^verbatim>\<open>checkEnvironmentDrift\<close>; \<open>goos\<close> is \<^verbatim>\<open>runtime.GOOS\<close>.\<close>

definition checkEnvironmentDrift :: "string \<Rightarrow> Pack \<Rightarrow> DriftEntry list" where
  "checkEnvironmentDrift goos p =
     (if env_OS (pk_Environment p) \<noteq> [] \<and> env_OS (pk_Environment p) \<noteq> goos
      then [\<lparr>de_Type = ''environment'', de_Description = ''OS changed'',
              de_Expected = env_OS (pk_Environment p), de_Actual = goos\<rparr>]
      else [])"

text \<open>
  The loop of \<^verbatim>\<open>Replay\<close> over the inputs; \<open>gquote\<close> is the \<^verbatim>\<open>%q\<close> of
  \<^verbatim>\<open>fmt.Sprintf\<close>.
\<close>

fun checkInputs :: "(string \<Rightarrow> string) \<Rightarrow> store \<Rightarrow> Input list \<Rightarrow> DriftEntry list \<Rightarrow> DriftEntry list" where
  "checkInputs gquote st [] drift = drift"
| "checkInputs gquote st (input # inputs) drift =
     checkInputs gquote st inputs
       (if \<not> BlobExists st (in_ContentRef input)
        then drift @ [\<lparr>de_Type = ''missing_input'',
                        de_Description = ''input '' @ gquote (in_Name input) @ '' not found in store'',
                        de_Expected = ShortHash (in_ContentRef input) 12,
                        de_Actual = []\<rparr>]
        else drift)"

text \<open>
  The loop of \<^verbatim>\<open>Replay\<close> over the steps: the state is the results so far and the two
  flags \<^verbatim>\<open>hasFailed\<close> and \<^verbatim>\<open>hasDiverged\<close>.
\<close>

fun runSteps ::
  "(bytes \<Rightarrow> 256 word) \<Rightarrow> (error \<Rightarrow> string) \<Rightarrow> (string \<rightharpoonup> ToolExecutor) \<Rightarrow> Step list \<Rightarrow>
   StepResult list \<times> bool \<times> bool \<Rightarrow> StepResult list \<times> bool \<times> bool" where
  "runSteps sha errtext executors [] acc = acc"
| "runSteps sha errtext executors (step # steps) (results, hasFailed, hasDiverged) =
     (let result = ExecuteStep sha errtext step executors
      in runSteps sha errtext executors steps
           (results @ [result],
            (case sr_Status result of StepFailed \<Rightarrow> True | _ \<Rightarrow> hasFailed),
            (case sr_Status result of
               StepDiverged \<Rightarrow> (if sr_Deterministic result then True else hasDiverged)
             | _ \<Rightarrow> hasDiverged)))"

text \<open>
  \<^verbatim>\<open>Replay\<close>; \<open>t0\<close> and \<open>t1\<close> are the two readings of \<^verbatim>\<open>time.Now()\<close>.
\<close>

definition Replay ::
  "(bytes \<Rightarrow> 256 word) \<Rightarrow> (bytes \<Rightarrow> Pack option) \<Rightarrow> (error \<Rightarrow> string) \<Rightarrow> (string \<Rightarrow> string) \<Rightarrow>
   string \<Rightarrow> gotime \<Rightarrow> gotime \<Rightarrow> (string \<Rightarrow> fnode) \<Rightarrow> store \<Rightarrow> string \<Rightarrow> error + ReplayReport" where
  "Replay sha unmarshal errtext gquote goos t0 t1 world st packHash =
     (case LoadPack sha unmarshal st packHash of
        Inl err \<Rightarrow> Inl err
      | Inr p \<Rightarrow>
          (let executors = DefaultExecutors world;
               drift = checkInputs gquote st (pk_Inputs p) (checkEnvironmentDrift goos p);
               (results, hasFailed, hasDiverged) =
                  runSteps sha errtext executors (pk_Steps p) ([], False, False)
           in Inr \<lparr>rp_PackHash = pk_Hash p,
                    rp_Fidelity =
                      (if hasFailed then FidelityFailed
                       else if hasDiverged then FidelityDegraded
                       else FidelityExact),
                    rp_Steps = results,
                    rp_Drift = drift,
                    rp_StartTime = t0,
                    rp_EndTime = t1\<rparr>))"

subsection \<open>Package graph: the records the delta engine and the optimizer read\<close>

record FileSnapshot =
  fs_Type :: string
  fs_Commit :: string
  fs_PathID :: string
  fs_BlobOID :: string
  fs_ContentSHA256 :: string
  fs_Language :: string
  fs_ByteSize :: int
  fs_LOC :: int
  fs_IsGenerated :: bool
  fs_IsBinary :: bool

record PathRecord =
  pa_Type :: string
  pa_PathID :: string
  pa_Repo :: string
  pa_Path :: string
  pa_FirstSeenCommit :: string
  pa_LastSeenCommit :: "string option"

record SymbolRecord =
  sy_Type :: string
  sy_Commit :: string
  sy_SymbolID :: string
  sy_PathID :: string
  sy_Kind :: string
  sy_Name :: string
  sy_FQName :: string
  sy_Visibility :: string
  sy_Language :: string
  sy_Signature :: string
  sy_Docstring :: string
  sy_SymbolHash :: string
  sy_DefRegionID :: string

text \<open>
  The graph store as \<^verbatim>\<open>ReadRecords\<close> reads it: what the call returns for the files
  and the symbols of a commit and for the paths manifest. A file that does not exist
  reads as no records; a file that cannot be opened, scanned or parsed is an error.
\<close>

record graph =
  snapshots :: "string \<Rightarrow> error + FileSnapshot list"
  paths :: "error + PathRecord list"
  symbols :: "string \<Rightarrow> error + SymbolRecord list"

subsection \<open>Package delta\<close>

record DeltaReport =
  dr_Base :: string
  dr_Head :: string
  dr_FilesChanged :: "string list"
  dr_FilesAdded :: "string list"
  dr_FilesDeleted :: "string list"
  dr_SymbolsInvalidated :: "string list"

definition IsEmpty :: "DeltaReport \<Rightarrow> bool" where
  "IsEmpty r \<longleftrightarrow>
     length (dr_FilesChanged r) = 0 \<and> length (dr_FilesAdded r) = 0 \<and> length (dr_FilesDeleted r) = 0"

text \<open>
  The Go maps of \<^verbatim>\<open>ComputeDelta\<close>: a later record of the same path-id replaces an
  earlier one. Go ranges over a map in no fixed order; here the keys come in the order of
  their first record. The three lists are sorted before they are returned, so the order
  of the keys does not show in the report.
\<close>

definition fileMap :: "FileSnapshot list \<Rightarrow> (string \<rightharpoonup> FileSnapshot)" where
  "fileMap files = fold (\<lambda>f m. m(fs_PathID f \<mapsto> f)) files Map.empty"

definition fileKeys :: "FileSnapshot list \<Rightarrow> string list" where
  "fileKeys files = remdups (map fs_PathID files)"

definition pathMap :: "PathRecord list \<Rightarrow> (string \<rightharpoonup> string)" where
  "pathMap ps = fold (\<lambda>p m. m(pa_PathID p \<mapsto> pa_Path p)) ps Map.empty"

text \<open>\<^verbatim>\<open>pathLookup[pathID]\<close>, the empty string for a missing key, and the fallback.\<close>

definition resolvePath :: "(string \<rightharpoonup> string) \<Rightarrow> string \<Rightarrow> string" where
  "resolvePath pathLookup pathID =
     (let path = (case pathLookup pathID of None \<Rightarrow> [] | Some p \<Rightarrow> p)
      in if path = [] then pathID else path)"

fun addedChanged ::
  "(string \<rightharpoonup> FileSnapshot) \<Rightarrow> (string \<rightharpoonup> FileSnapshot) \<Rightarrow> (string \<rightharpoonup> string) \<Rightarrow>
   string list \<Rightarrow> string list \<times> string list \<Rightarrow> string list \<times> string list" where
  "addedChanged baseMap headMap pathLookup [] acc = acc"
| "addedChanged baseMap headMap pathLookup (pathID # ks) (added, changed) =
     (case headMap pathID of
        None \<Rightarrow> addedChanged baseMap headMap pathLookup ks (added, changed)
      | Some headFile \<Rightarrow>
          (let path = resolvePath pathLookup pathID in
           case baseMap pathID of
             None \<Rightarrow> addedChanged baseMap headMap pathLookup ks (added @ [path], changed)
           | Some baseFile \<Rightarrow>
               if fs_ContentSHA256 baseFile \<noteq> fs_ContentSHA256 headFile
               then addedChanged baseMap headMap pathLookup ks (added, changed @ [path])
               else addedChanged baseMap headMap pathLookup ks (added, changed)))"

fun deletedFiles ::
  "(string \<rightharpoonup> FileSnapshot) \<Rightarrow> (string \<rightharpoonup> string) \<Rightarrow> string list \<Rightarrow> string list \<Rightarrow> string list" where
  "deletedFiles headMap pathLookup [] deleted = deleted"
| "deletedFiles headMap pathLookup (pathID # ks) deleted =
     (case headMap pathID of
        None \<Rightarrow> deletedFiles headMap pathLookup ks (deleted @ [resolvePath pathLookup pathID])
      | Some _ \<Rightarrow> deletedFiles headMap pathLookup ks deleted)"

text \<open>
  \<^verbatim>\<open>ComputeDelta\<close>. The slice \<^verbatim>\<open>baseSHA[:8]\<close> of an error message panics on a SHA of
  fewer than 8 bytes.
\<close>

definition ComputeDelta :: "graph \<Rightarrow> string \<Rightarrow> string \<Rightarrow> error + DeltaReport" where
  "ComputeDelta g baseSHA headSHA =
     (case snapshots g baseSHA of
        Inl err \<Rightarrow>
          if length baseSHA < 8 then Inl Panic
          else Inl (Wrap (''reading base files ('' @ take 8 baseSHA @ '')'') err)
      | Inr baseFiles \<Rightarrow>
     (case snapshots g headSHA of
        Inl err \<Rightarrow>
          if length headSHA < 8 then Inl Panic
          else Inl (Wrap (''reading head files ('' @ take 8 headSHA @ '')'') err)
      | Inr headFiles \<Rightarrow>
     (case paths g of
        Inl err \<Rightarrow> Inl (Wrap ''reading paths'' err)
      | Inr ps \<Rightarrow>
          (let baseMap = fileMap baseFiles;
               headMap = fileMap headFiles;
               pathLookup = pathMap ps;
               (added, changed) =
                  addedChanged baseMap headMap pathLookup (fileKeys headFiles) ([], []);
               deleted = deletedFiles headMap pathLookup (fileKeys baseFiles) []
           in Inr \<lparr>dr_Base = baseSHA, dr_Head = headSHA,
                    dr_FilesChanged = sort changed,
                    dr_FilesAdded = sort added,
                    dr_FilesDeleted = sort deleted,
                    dr_SymbolsInvalidated = []\<rparr>))))"

subsection \<open>Package optimize\<close>

definition DefaultTokenCap :: int where
  "DefaultTokenCap = 32000"

record PackRequest =
  rq_Commit :: string
  rq_Task :: string
  rq_TokenCap :: int
  rq_IncludeTests :: bool

record PackItem =
  it_Path :: string
  it_Language :: string
  it_SymbolID :: string
  it_SymbolName :: string
  it_EstimatedTokens :: int
  it_Reason :: string

record OptimizedPack =
  op_Commit :: string
  op_Task :: string
  op_Files :: "PackItem list"
  op_Symbols :: "PackItem list"
  op_Snippets :: "PackItem list"
  op_ADRConstraints :: "string list"
  op_EstimatedTokens :: int
  op_TokenCap :: int

record scoredFile =
  sf_snapshot :: FileSnapshot
  sf_path :: string
  sf_score :: rat
  sf_tokens :: int
  sf_reason :: string

record scoredSymbol =
  ss_symbol :: SymbolRecord
  ss_score :: rat
  ss_tokens :: int

text \<open>
  Of package strings. \<^verbatim>\<open>ToLower\<close> maps the bytes of an ASCII string; a string with
  a byte outside ASCII goes through the Unicode tables of the standard library, the
  parameter \<open>lowerU\<close>. \<^verbatim>\<open>Contains\<close>, \<^verbatim>\<open>Count\<close> of a one-byte separator and
  \<^verbatim>\<open>FieldsFunc\<close> with a test on ASCII separators work on the bytes.
\<close>

definition lower_byte :: "char \<Rightarrow> char" where
  "lower_byte c = (if CHR ''A'' \<le> c \<and> c \<le> CHR ''Z'' then char_of (of_char c + (32 :: nat)) else c)"

definition ToLower :: "(string \<Rightarrow> string) \<Rightarrow> string \<Rightarrow> string" where
  "ToLower lowerU s =
     (if list_all (\<lambda>c. of_char c < (0x80 :: nat)) s then map lower_byte s else lowerU s)"

fun Contains :: "string \<Rightarrow> string \<Rightarrow> bool" where
  "Contains [] sub = (sub = [])"
| "Contains (c # s) sub = (prefix sub (c # s) \<or> Contains s sub)"

definition Count :: "string \<Rightarrow> char \<Rightarrow> nat" where
  "Count s c = length (filter (\<lambda>x. x = c) s)"

fun FieldsFunc :: "(char \<Rightarrow> bool) \<Rightarrow> string \<Rightarrow> string \<Rightarrow> string list" where
  "FieldsFunc sep [] cur = (if cur = [] then [] else [cur])"
| "FieldsFunc sep (c # s) cur =
     (if sep c then (if cur = [] then FieldsFunc sep s [] else cur # FieldsFunc sep s [])
      else FieldsFunc sep s (cur @ [c]))"

text \<open>
  The float64 of the source is a rational here, and every operation rounds its exact
  result to the nearest float64, ties to even (\<open>fl\<close>): a mantissa of 53 bits at the
  exponent of the value. The values of this package are far from the ends of the
  exponent's range, which \<open>fl\<close> does not model.
\<close>

function bit_length :: "nat \<Rightarrow> nat" where
  "bit_length n = (if n = 0 then 0 else Suc (bit_length (n div 2)))"
  by pat_completeness auto
termination
  by (relation "measure id") auto

definition pow2 :: "int \<Rightarrow> rat" where
  "pow2 e = (if e \<ge> 0 then 2 ^ nat e else 1 / 2 ^ nat (- e))"

definition round_half_even :: "rat \<Rightarrow> int" where
  "round_half_even r =
     (let f = \<lfloor>r\<rfloor>; d = r - of_int f
      in if d < 1 / 2 then f else if d > 1 / 2 then f + 1 else if even f then f else f + 1)"

definition fl :: "rat \<Rightarrow> rat" where
  "fl x =
     (if x = 0 then 0
      else
        (let a = \<bar>x\<bar>;
             (p, q) = quotient_of a;
             e0 = int (bit_length (nat p)) - int (bit_length (nat q));
             e = (if pow2 e0 \<le> a then e0 else e0 - 1);
             m = round_half_even (a * pow2 (52 - e))
         in (if x < 0 then - 1 else 1) * of_int m * pow2 (e - 52)))"

text \<open>
  \<^verbatim>\<open>estimateTokens\<close>: \<^verbatim>\<open>int(float64(byteSize) * 0.25)\<close>, the conversion to \<^verbatim>\<open>int\<close>
  truncating toward zero, and at least 1.
\<close>

definition estimateTokens :: "int \<Rightarrow> int" where
  "estimateTokens byteSize =
     (let x = fl (fl (of_int byteSize) * (1 / 4));
          tokens = (if x < 0 then - \<lfloor>- x\<rfloor> else \<lfloor>x\<rfloor>)
      in if tokens < 1 then 1 else tokens)"

definition scoreFile :: "(string \<Rightarrow> string) \<Rightarrow> string \<Rightarrow> string \<Rightarrow> string list \<Rightarrow> rat" where
  "scoreFile lowerU path language taskWords =
     (let pathLower = ToLower lowerU path;
          score0 = (if language \<in> set [''go'', ''typescript'', ''javascript'', ''python'', ''rust'', ''java'']
                    then fl (0 + 1 / 2) else 0);
          score1 = fold (\<lambda>word score. if Contains pathLower word then fl (score + 2) else score)
                     taskWords score0;
          base = ToLower lowerU path;
          score2 = (if Contains base ''main.'' \<or> Contains base ''index.'' \<or> Contains base ''app.''
                    then fl (score1 + 1 / 2) else score1);
          depth = Count path CHR ''/''
      in if depth > 3 then fl (score2 - fl (of_nat (depth - 3) * fl (1 / 10))) else score2)"

definition scoreSymbol :: "(string \<Rightarrow> string) \<Rightarrow> SymbolRecord \<Rightarrow> string list \<Rightarrow> rat" where
  "scoreSymbol lowerU symb taskWords =
     (let nameLower = ToLower lowerU (sy_Name symb);
          fqLower = ToLower lowerU (sy_FQName symb);
          score0 = (if sy_Visibility symb = ''exported'' then fl (0 + 1) else 0);
          score1 = (if sy_Kind symb = ''function'' \<or> sy_Kind symb = ''method''
                    then fl (score0 + 1 / 2) else score0)
      in fold (\<lambda>word score.
                 if Contains nameLower word \<or> Contains fqLower word then fl (score + 2) else score)
           taskWords score1)"

definition stopWords :: "string list" where
  "stopWords =
     [''the'', ''a'', ''an'', ''and'', ''or'', ''to'', ''in'', ''of'', ''for'', ''is'',
      ''it'', ''on'', ''at'', ''by'', ''with'', ''from'', ''this'', ''that'', ''be'', ''as'',
      ''add'', ''fix'', ''update'', ''implement'']"

definition extractTaskWords :: "(string \<Rightarrow> string) \<Rightarrow> string \<Rightarrow> string list" where
  "extractTaskWords lowerU task =
     (let words = FieldsFunc (\<lambda>r. r \<in> set [CHR '' '', CHR '','', CHR ''.'', CHR '';'', CHR '':'',
                                   CHR ''-'', CHR ''_'', CHR ''/'', CHR 0x27, CHR 0x22]) task []
      in filter (\<lambda>w. length w \<ge> 3 \<and> w \<notin> set stopWords) (map (ToLower lowerU) words))"

definition isTestFile :: "(string \<Rightarrow> string) \<Rightarrow> string \<Rightarrow> bool" where
  "isTestFile lowerU path =
     (let lower = ToLower lowerU path
      in Contains lower ''_test.'' \<or> Contains lower ''.test.'' \<or> Contains lower ''.spec.'' \<or>
         Contains lower ''__tests__/'' \<or> Contains lower ''test/'' \<or> Contains lower ''tests/'')"

text \<open>
  \<^verbatim>\<open>sort.Slice\<close> with the comparison \<open>lessFn\<close>, as an insertion sort. The sort of the
  source is not stable: where two entries compare equal either order may come out.
\<close>

fun insertSlice :: "('a \<Rightarrow> 'a \<Rightarrow> bool) \<Rightarrow> 'a \<Rightarrow> 'a list \<Rightarrow> 'a list" where
  "insertSlice lessFn x [] = [x]"
| "insertSlice lessFn x (y # ys) = (if lessFn y x then y # insertSlice lessFn x ys else x # y # ys)"

definition sortSlice :: "('a \<Rightarrow> 'a \<Rightarrow> bool) \<Rightarrow> 'a list \<Rightarrow> 'a list" where
  "sortSlice lessFn xs = foldr (insertSlice lessFn) xs []"

text \<open>The loop that builds the file candidates.\<close>

fun fileCandidates ::
  "(string \<Rightarrow> string) \<Rightarrow> (string \<rightharpoonup> string) \<Rightarrow> bool \<Rightarrow> string list \<Rightarrow> FileSnapshot list \<Rightarrow>
   scoredFile list" where
  "fileCandidates lowerU pathLookup includeTests taskWords [] = []"
| "fileCandidates lowerU pathLookup includeTests taskWords (f # fs) =
     (let path = (case pathLookup (fs_PathID f) of None \<Rightarrow> [] | Some p \<Rightarrow> p);
          rest = fileCandidates lowerU pathLookup includeTests taskWords fs
      in if path = [] then rest
         else if fs_IsBinary f \<or> fs_IsGenerated f then rest
         else if \<not> includeTests \<and> isTestFile lowerU path then rest
         else
           (let tokens = estimateTokens (fs_ByteSize f);
                score = scoreFile lowerU path (fs_Language f) taskWords;
                reason = (if score \<ge> 2 then ''high-relevance''
                          else if score \<ge> 1 then ''medium-relevance''
                          else ''low-relevance'')
            in \<lparr>sf_snapshot = f, sf_path = path, sf_score = score, sf_tokens = tokens,
                 sf_reason = reason\<rparr> # rest))"

text \<open>
  The loop that fills the pack with files: the state is the files admitted and the
  remaining tokens; \<^verbatim>\<open>continue\<close> skips a candidate, \<^verbatim>\<open>break\<close> ends the loop.
\<close>

fun fillFiles :: "int \<Rightarrow> scoredFile list \<Rightarrow> PackItem list \<times> int \<Rightarrow> PackItem list \<times> int" where
  "fillFiles tokenCap [] acc = acc"
| "fillFiles tokenCap (c # cs) (files, remainingTokens) =
     (if sf_tokens c > remainingTokens \<and> (sf_score c < 2 \<or> remainingTokens < tokenCap div 4)
      then fillFiles tokenCap cs (files, remainingTokens)
      else
        (let files' = files @ [\<lparr>it_Path = sf_path c, it_Language = fs_Language (sf_snapshot c),
                                 it_SymbolID = [], it_SymbolName = [],
                                 it_EstimatedTokens = sf_tokens c, it_Reason = sf_reason c\<rparr>];
             remaining' = remainingTokens - sf_tokens c
         in if remaining' \<le> 0 then (files', remaining')
            else fillFiles tokenCap cs (files', remaining')))"

text \<open>The path-ids of the files admitted: for each, the first snapshot with its path.\<close>

definition includedPaths :: "(string \<rightharpoonup> string) \<Rightarrow> FileSnapshot list \<Rightarrow> PackItem list \<Rightarrow> string list" where
  "includedPaths pathLookup files items =
     concat (map (\<lambda>f.
        case find (\<lambda>snap. (case pathLookup (fs_PathID snap) of None \<Rightarrow> [] | Some p \<Rightarrow> p) = it_Path f)
               files of
          None \<Rightarrow> []
        | Some snap \<Rightarrow> [fs_PathID snap]) items)"

fun symbolCandidates ::
  "(string \<Rightarrow> string) \<Rightarrow> string list \<Rightarrow> string list \<Rightarrow> SymbolRecord list \<Rightarrow> scoredSymbol list" where
  "symbolCandidates lowerU included taskWords [] = []"
| "symbolCandidates lowerU included taskWords (symb # syms) =
     (let rest = symbolCandidates lowerU included taskWords syms
      in if sy_PathID symb \<notin> set included then rest
         else
           (let score = scoreSymbol lowerU symb taskWords;
                tokens0 = estimateTokens (int (length (sy_Signature symb) + length (sy_Docstring symb)));
                tokens = (if tokens0 < 10 then 10 else tokens0)
            in \<lparr>ss_symbol = symb, ss_score = score, ss_tokens = tokens\<rparr> # rest))"

fun fillSymbols ::
  "(string \<rightharpoonup> string) \<Rightarrow> scoredSymbol list \<Rightarrow> PackItem list \<times> int \<Rightarrow> PackItem list \<times> int" where
  "fillSymbols pathLookup [] acc = acc"
| "fillSymbols pathLookup (sc # scs) (syms, remainingTokens) =
     (if ss_tokens sc > remainingTokens
      then fillSymbols pathLookup scs (syms, remainingTokens)
      else
        (let syms' = syms @
               [\<lparr>it_Path = (case pathLookup (sy_PathID (ss_symbol sc)) of None \<Rightarrow> [] | Some p \<Rightarrow> p),
                 it_Language = [],
                 it_SymbolID = sy_SymbolID (ss_symbol sc),
                 it_SymbolName = sy_FQName (ss_symbol sc),
                 it_EstimatedTokens = ss_tokens sc,
                 it_Reason = ''task-relevant-'' @ sy_Kind (ss_symbol sc)\<rparr>];
             remaining' = remainingTokens - ss_tokens sc
         in if remaining' \<le> 0 then (syms', remaining')
            else fillSymbols pathLookup scs (syms', remaining')))"

text \<open>
  \<^verbatim>\<open>GeneratePack\<close>; \<open>head\<close> is what \<^verbatim>\<open>index.GetHeadSHA\<close> returns for the repository.
  A failed read of the symbols is ignored and leaves none. The token counts are Go's
  \<^verbatim>\<open>int\<close> of 64 bits, unbounded integers here: with the byte sizes of files the sums
  stay far below \<open>2^63\<close>.
\<close>

definition GeneratePack ::
  "(string \<Rightarrow> string) \<Rightarrow> graph \<Rightarrow> error + string \<Rightarrow> PackRequest \<Rightarrow> error + OptimizedPack" where
  "GeneratePack lowerU g head req =
     (let tokenCap = (if rq_TokenCap req \<le> 0 then DefaultTokenCap else rq_TokenCap req) in
      case (if rq_Commit req = [] then
              (case head of Inl err \<Rightarrow> Inl (Wrap ''getting HEAD'' err) | Inr sha \<Rightarrow> Inr sha)
            else Inr (rq_Commit req)) of
        Inl err \<Rightarrow> Inl err
      | Inr commitSHA \<Rightarrow>
     (case snapshots g commitSHA of
        Inl err \<Rightarrow>
          if length commitSHA < 8 then Inl Panic
          else Inl (Wrap (''reading files for '' @ take 8 commitSHA) err)
      | Inr files \<Rightarrow>
     (case paths g of
        Inl err \<Rightarrow> Inl (Wrap ''reading paths'' err)
      | Inr ps \<Rightarrow>
          (let pathLookup = pathMap ps;
               syms = (case symbols g commitSHA of Inl _ \<Rightarrow> [] | Inr s \<Rightarrow> s);
               taskLower = ToLower lowerU (rq_Task req);
               taskWords = extractTaskWords lowerU taskLower;
               candidates = sortSlice
                  (\<lambda>a b. if sf_score a \<noteq> sf_score b then sf_score a > sf_score b
                          else sf_path a < sf_path b)
                  (fileCandidates lowerU pathLookup (rq_IncludeTests req) taskWords files);
               (packFiles, remaining1) = fillFiles tokenCap candidates ([], tokenCap);
               (packSymbols, remaining2) =
                  (if length syms > 0 then
                     fillSymbols pathLookup
                       (sortSlice (\<lambda>a b. ss_score a > ss_score b)
                          (symbolCandidates lowerU (includedPaths pathLookup files packFiles)
                             taskWords syms))
                       ([], remaining1)
                   else ([], remaining1));
               total = sum_list (map it_EstimatedTokens packFiles) +
                       sum_list (map it_EstimatedTokens packSymbols)
           in Inr \<lparr>op_Commit = commitSHA, op_Task = rq_Task req,
                    op_Files = packFiles, op_Symbols = packSymbols,
                    op_Snippets = [], op_ADRConstraints = [],
                    op_EstimatedTokens = total, op_TokenCap = tokenCap\<rparr>))))"

subsection \<open>Vocabulary of the properties\<close>

text \<open>A hexadecimal string in lower case, as \<^verbatim>\<open>hex.EncodeToString\<close> writes it.\<close>

definition lower_hex :: "string \<Rightarrow> bool" where
  "lower_hex s \<longleftrightarrow> list_all (\<lambda>c. c \<in> set ''0123456789abcdef'') s"

text \<open>
  A value of the parameter \<open>sha\<close> that can be evaluated: the length of the data as the
  digest. It stands in for SHA-256 where a property is shown at a concrete store.
\<close>

definition length_digest :: "bytes \<Rightarrow> 256 word" where
  "length_digest data = of_nat (length data)"

text \<open>
  An example for the evaluations below: a manifest as \<^verbatim>\<open>CreatePack\<close> builds it (the
  references being those of the stand-in digest), the blob it is stored as, a decoder that
  reads this blob back, and a store that holds this blob and nothing else.
\<close>

definition ex_manifest :: Pack where
  "ex_manifest =
     \<lparr>pk_Version = ''0.1'', pk_Hash = [], pk_Created = ''2026-02-10T12:00:00Z'',
      pk_Model = \<lparr>md_Identifier = ''gpt-4'', md_Parameters = Some []\<rparr>,
      pk_SystemPrompt = ''sha256:000000000000000000000000000000000000000000000000000000000000001c'',
      pk_Prompts = [\<lparr>pr_Role = ''user'',
         pr_ContentRef = ''sha256:0000000000000000000000000000000000000000000000000000000000000013''\<rparr>],
      pk_Inputs = [\<lparr>in_Name = ''readme.md'',
         in_ContentRef = ''sha256:000000000000000000000000000000000000000000000000000000000000000d'',
         in_Size = 13\<rparr>],
      pk_Steps = [\<lparr>sp_Index = 0, sp_Type = ''tool_call'', sp_Tool = ''read_file'',
         sp_Parameters = Some [(''path'', JStr ''readme.md'')],
         sp_OutputRef = ''sha256:000000000000000000000000000000000000000000000000000000000000000d'',
         sp_Deterministic = True, sp_Timestamp = ''2026-02-10T11:59:00Z''\<rparr>],
      pk_Outputs = [\<lparr>out_Name = ''summary.txt'',
         out_ContentRef = ''sha256:0000000000000000000000000000000000000000000000000000000000000009'',
         out_ContextPack = []\<rparr>],
      pk_Environment = \<lparr>env_OS = ''darwin'', env_Runtime = ''rt'', env_ToolVersions = Some []\<rparr>,
      pk_Parent = []\<rparr>"

definition ex_blob :: bytes where
  "ex_blob = canonicalJSON id ex_manifest"

definition ex_hash :: string where
  "ex_hash = ''sha256:0000000000000000000000000000000000000000000000000000000000000363''"

definition ex_unmarshal :: "bytes \<Rightarrow> Pack option" where
  "ex_unmarshal data = (if data = ex_blob then Some ex_manifest else None)"

definition ex_store :: store where
  "ex_store =
     \<lparr>objects = (\<lambda>_. Absent)
        (''objects/00/00000000000000000000000000000000000000000000000000000000000363'' :=
           Content ex_blob),
      packs = DirEntries []\<rparr>"

text \<open>
  The path of the blob of some data, and the store after the data is written: a path
  already taken is left alone.
\<close>

definition blob_path :: "(bytes \<Rightarrow> 256 word) \<Rightarrow> bytes \<Rightarrow> string" where
  "blob_path sha d =
     ''objects/'' @ take 2 (hex_of_digest (sha d)) @ ''/'' @ drop 2 (hex_of_digest (sha d))"

definition put_blob :: "(bytes \<Rightarrow> 256 word) \<Rightarrow> bytes \<Rightarrow> store \<Rightarrow> store" where
  "put_blob sha d st =
     (if objects st (blob_path sha d) \<noteq> Absent then st
      else st\<lparr>objects := (objects st)(blob_path sha d := Content d)\<rparr>)"

text \<open>
  A store whose blobs are intact, for the contents \<open>A\<close>: every file under
  \<^verbatim>\<open>objects/\<close> holds one of them, at the path of its hash.
\<close>

definition blobs_of :: "(bytes \<Rightarrow> 256 word) \<Rightarrow> bytes set \<Rightarrow> store \<Rightarrow> bool" where
  "blobs_of sha A st \<longleftrightarrow>
     (\<forall>p. objects st p = Absent \<or> (\<exists>x\<in>A. objects st p = Content x \<and> p = blob_path sha x))"

text \<open>The contents that \<^verbatim>\<open>CreatePack\<close> stores for a log, the manifest apart.\<close>

definition log_contents :: "ExecutionLog \<Rightarrow> bytes list" where
  "log_contents xlog =
     lg_SystemPrompt xlog # map lp_Content (lg_Prompts xlog) @ map li_Content (lg_Inputs xlog) @
     filter (\<lambda>d. d \<noteq> []) (map ls_Output (lg_Steps xlog)) @
     map lo_Content (lg_Outputs xlog)"

text \<open>
  The manifest as it is serialized, before \<^verbatim>\<open>CreatePack\<close> sets the hash and the
  back-references of the outputs: what a returned pack was stored as, what is built from a
  log, and the store after the contents of a log are written.
\<close>

definition stored_manifest :: "Pack \<Rightarrow> Pack" where
  "stored_manifest P =
     P\<lparr>pk_Hash := [], pk_Outputs := map (\<lambda>out. out\<lparr>out_ContextPack := []\<rparr>) (pk_Outputs P)\<rparr>"

definition built_manifest :: "(bytes \<Rightarrow> 256 word) \<Rightarrow> gotime \<Rightarrow> ExecutionLog \<Rightarrow> Pack" where
  "built_manifest sha now xlog =
     \<lparr>pk_Version = ''0.1'',
      pk_Hash = [],
      pk_Created = now,
      pk_Model = \<lparr>md_Identifier = lm_Identifier (lg_Model xlog),
                   md_Parameters = lm_Parameters (lg_Model xlog)\<rparr>,
      pk_SystemPrompt = HashContent sha (lg_SystemPrompt xlog),
      pk_Prompts = map (\<lambda>p. \<lparr>pr_Role = lp_Role p,
                             pr_ContentRef = HashContent sha (lp_Content p)\<rparr>) (lg_Prompts xlog),
      pk_Inputs = map (\<lambda>inp. \<lparr>in_Name = li_Name inp,
                              in_ContentRef = HashContent sha (li_Content inp),
                              in_Size = int (length (li_Content inp))\<rparr>) (lg_Inputs xlog),
      pk_Steps = map (\<lambda>s. \<lparr>sp_Index = ls_Index s, sp_Type = ls_Type s, sp_Tool = ls_Tool s,
                           sp_Parameters = ls_Parameters s,
                           sp_OutputRef = (if ls_Output s \<noteq> [] then HashContent sha (ls_Output s) else []),
                           sp_Deterministic = ls_Deterministic s,
                           sp_Timestamp = ls_Timestamp s\<rparr>) (lg_Steps xlog),
      pk_Outputs = map (\<lambda>out. \<lparr>out_Name = lo_Name out,
                               out_ContentRef = HashContent sha (lo_Content out),
                               out_ContextPack = []\<rparr>) (lg_Outputs xlog),
      pk_Environment = \<lparr>env_OS = le_OS (lg_Environment xlog),
                         env_Runtime = le_Runtime (lg_Environment xlog),
                         env_ToolVersions = le_ToolVersions (lg_Environment xlog)\<rparr>,
      pk_Parent = []\<rparr>"

definition stored_blobs :: "(bytes \<Rightarrow> 256 word) \<Rightarrow> ExecutionLog \<Rightarrow> store \<Rightarrow> store" where
  "stored_blobs sha xlog st =
     fold (\<lambda>x s. put_blob sha (lo_Content x) s) (lg_Outputs xlog)
       (fold (\<lambda>x s. if ls_Output x \<noteq> [] then put_blob sha (ls_Output x) s else s) (lg_Steps xlog)
         (fold (\<lambda>x s. put_blob sha (li_Content x) s) (lg_Inputs xlog)
           (fold (\<lambda>x s. put_blob sha (lp_Content x) s) (lg_Prompts xlog)
             (put_blob sha (lg_SystemPrompt xlog) st))))"

text \<open>
  The execution log of the example manifest, the pack that \<^verbatim>\<open>CreatePack\<close> returns for it
  at \<^verbatim>\<open>2026-02-10T12:00:00Z\<close> with the stand-in digest, and the store it leaves when it
  starts from an empty one. The input and the output of the step have the same content,
  hence one blob.
\<close>

definition ex_log :: ExecutionLog where
  "ex_log =
     \<lparr>lg_Model = \<lparr>lm_Identifier = ''gpt-4'', lm_Parameters = Some []\<rparr>,
      lg_SystemPrompt = ''You are a helpful assistant.'',
      lg_Prompts = [\<lparr>lp_Role = ''user'', lp_Content = ''Summarize this file''\<rparr>],
      lg_Inputs = [\<lparr>li_Name = ''readme.md'', li_Content = ''# Hello World''\<rparr>],
      lg_Steps = [\<lparr>ls_Index = 0, ls_Type = ''tool_call'', ls_Tool = ''read_file'',
         ls_Parameters = Some [(''path'', JStr ''readme.md'')],
         ls_Output = ''# Hello World'',
         ls_Deterministic = True, ls_Timestamp = ''2026-02-10T11:59:00Z''\<rparr>],
      lg_Outputs = [\<lparr>lo_Name = ''summary.txt'', lo_Content = ''A readme.''\<rparr>],
      lg_Environment = \<lparr>le_OS = ''darwin'', le_Runtime = ''rt'', le_ToolVersions = Some []\<rparr>\<rparr>"

definition ex_pack :: Pack where
  "ex_pack =
     ex_manifest
       \<lparr>pk_Hash := ex_hash,
        pk_Outputs := [\<lparr>out_Name = ''summary.txt'',
          out_ContentRef = ''sha256:0000000000000000000000000000000000000000000000000000000000000009'',
          out_ContextPack = ex_hash\<rparr>]\<rparr>"

definition ex_pack_store :: store where
  "ex_pack_store =
     \<lparr>objects = (\<lambda>_. Absent)
        (''objects/00/0000000000000000000000000000000000000000000000000000000000001c'' :=
           Content ''You are a helpful assistant.'',
         ''objects/00/00000000000000000000000000000000000000000000000000000000000013'' :=
           Content ''Summarize this file'',
         ''objects/00/0000000000000000000000000000000000000000000000000000000000000d'' :=
           Content ''# Hello World'',
         ''objects/00/00000000000000000000000000000000000000000000000000000000000009'' :=
           Content ''A readme.'',
         ''objects/00/00000000000000000000000000000000000000000000000000000000000363'' :=
           Content ex_blob),
      packs = DirEntries []\<rparr>"

text \<open>
  A draft made from the example manifest, with a parent; a decoder that reads the draft
  file back; and a file system that holds the draft file and nothing else.
\<close>

definition ex_draft :: Pack where
  "ex_draft = ex_manifest\<lparr>pk_Parent := ex_hash\<rparr>"

definition ex_draft_unmarshal :: "bytes \<Rightarrow> Pack option" where
  "ex_draft_unmarshal data = (if data = json_Marshal ex_draft then Some ex_draft else None)"

definition ex_drafts :: "string \<Rightarrow> fnode" where
  "ex_drafts =
     (\<lambda>_. Absent)(''/repo/.ctx/drafts/000000000000.draft.json'' := Content (json_Marshal ex_draft))"

text \<open>
  A graph store with two indexed commits: between them \<^verbatim>\<open>config.yaml\<close> is deleted,
  \<^verbatim>\<open>main.go\<close> is changed, \<^verbatim>\<open>README.md\<close> is the same and \<^verbatim>\<open>util.go\<close> is added.
\<close>

definition ex_file :: "string \<Rightarrow> string \<Rightarrow> string \<Rightarrow> string \<Rightarrow> int \<Rightarrow> FileSnapshot" where
  "ex_file commit pathID content language byteSize =
     \<lparr>fs_Type = ''file_snapshot'', fs_Commit = commit, fs_PathID = pathID, fs_BlobOID = [],
      fs_ContentSHA256 = content, fs_Language = language, fs_ByteSize = byteSize, fs_LOC = 1,
      fs_IsGenerated = False, fs_IsBinary = False\<rparr>"

definition ex_path :: "string \<Rightarrow> string \<Rightarrow> PathRecord" where
  "ex_path pathID path =
     \<lparr>pa_Type = ''path'', pa_PathID = pathID, pa_Repo = ''/repo'', pa_Path = path,
      pa_FirstSeenCommit = ''c1c1c1c1c1'', pa_LastSeenCommit = None\<rparr>"

definition ex_graph :: graph where
  "ex_graph =
     \<lparr>snapshots = (\<lambda>commit.
         if commit = ''c1c1c1c1c1'' then
           Inr [ex_file commit ''id-config'' ''sha-config'' ''yaml'' 40,
                ex_file commit ''id-main'' ''sha-main-1'' ''go'' 400,
                ex_file commit ''id-readme'' ''sha-readme'' ''markdown'' 80]
         else if commit = ''c2c2c2c2c2'' then
           Inr [ex_file commit ''id-main'' ''sha-main-2'' ''go'' 440,
                ex_file commit ''id-readme'' ''sha-readme'' ''markdown'' 80,
                ex_file commit ''id-util'' ''sha-util'' ''go'' 120]
         else Inr []),
      paths = Inr [ex_path ''id-config'' ''config.yaml'', ex_path ''id-main'' ''main.go'',
                   ex_path ''id-readme'' ''README.md'', ex_path ''id-util'' ''util.go''],
      symbols = (\<lambda>_. Inr [])\<rparr>"

section \<open>Properties of the hash references\<close>

lemma length_hex_of_digest: "length (hex_of_digest w) = 64"
  by (simp add: hex_of_digest_def)

lemma not_hex_s: "\<not> is_hex_char CHR ''s''" by (simp add: is_hex_char_def)

lemma hex_no_prefix: "list_all is_hex_char h \<Longrightarrow> h \<noteq> [] \<Longrightarrow> \<not> prefix hashPrefix h"
  by (cases h) (auto simp: hashPrefix_def is_hex_char_def)

lemma ParseHash_Inr_iff:
  "ParseHash ref = Inr (a, h) \<longleftrightarrow>
     a = ''sha256'' \<and> ref = hashPrefix @ h \<and> length h = 64 \<and> list_all is_hex_char h"
  by (auto simp: ParseHash_def Let_def hex_decodes_def prefix_def)

lemma ValidateHash_iff:
  "ValidateHash ref \<longleftrightarrow> (\<exists>h. ref = hashPrefix @ h \<and> length h = 64 \<and> list_all is_hex_char h)"
proof -
  have "ValidateHash ref \<longleftrightarrow> (\<exists>a h. ParseHash ref = Inr (a, h))"
    by (auto simp: ValidateHash_def split: sum.splits)
  then show ?thesis by (simp add: ParseHash_Inr_iff)
qed

lemma NormalizeHash_Inr_iff:
  "NormalizeHash ref = Inr out \<longleftrightarrow>
     (\<exists>h. length h = 64 \<and> list_all is_hex_char h \<and> (ref = hashPrefix @ h \<or> ref = h) \<and>
          out = hashPrefix @ h)"
proof (cases "prefix hashPrefix ref")
  case True
  then have "NormalizeHash ref = Inr out \<longleftrightarrow> ValidateHash ref \<and> out = ref"
    by (auto simp: NormalizeHash_def)
  moreover have "\<And>h. length h = 64 \<Longrightarrow> list_all is_hex_char h \<Longrightarrow> ref \<noteq> h"
    using True hex_no_prefix by fastforce
  ultimately show ?thesis
    by (auto simp: ValidateHash_iff)
next
  case False
  then have "NormalizeHash ref = Inr out \<longleftrightarrow> ValidateHash (hashPrefix @ ref) \<and> out = hashPrefix @ ref"
    by (auto simp: NormalizeHash_def Let_def)
  moreover have "\<And>h. ref \<noteq> hashPrefix @ h"
    using False by (auto simp: prefix_def)
  ultimately show ?thesis
    by (auto simp: ValidateHash_iff)
qed

text \<open>
  Claim C8, as amended. \<^verbatim>\<open>NormalizeHash\<close> accepts exactly the full references
  \<^verbatim>\<open>sha256:<64 hex>\<close> and the plain strings of 64 hexadecimal digits, of either case; it
  returns the reference with the digits of the input unchanged (so in lower case exactly
  when the input's are), and it rejects every other input with an error.
\<close>

theorem NormalizeHash_keeps_case:
  "(NormalizeHash ref = Inr out \<longleftrightarrow>
      (\<exists>h. length h = 64 \<and> list_all is_hex_char h \<and> (ref = hashPrefix @ h \<or> ref = h) \<and>
           out = hashPrefix @ h)) \<and>
   ((\<exists>e. NormalizeHash ref = Inl e) \<longleftrightarrow>
      \<not> (\<exists>h. length h = 64 \<and> list_all is_hex_char h \<and> (ref = hashPrefix @ h \<or> ref = h)))"
proof -
  have "(\<exists>e. NormalizeHash ref = Inl e) \<longleftrightarrow> \<not> (\<exists>out. NormalizeHash ref = Inr out)"
    by (cases "NormalizeHash ref") auto
  then show ?thesis
    by (auto simp: NormalizeHash_Inr_iff)
qed

text \<open>
  Claim C8 as stated fails: a full reference in upper case is accepted and returned as it
  is, and its hex portion is not in lower case.
\<close>

theorem NormalizeHash_upper_case:
  "NormalizeHash ''sha256:AAAAAAAAAAAAAAAAAAAAAAAAAAAAAAAAAAAAAAAAAAAAAAAAAAAAAAAAAAAAAAAA''
     = Inr ''sha256:AAAAAAAAAAAAAAAAAAAAAAAAAAAAAAAAAAAAAAAAAAAAAAAAAAAAAAAAAAAAAAAA'' \<and>
   \<not> lower_hex (drop (length hashPrefix)
     ''sha256:AAAAAAAAAAAAAAAAAAAAAAAAAAAAAAAAAAAAAAAAAAAAAAAAAAAAAAAAAAAAAAAA'')"
  by (simp add: NormalizeHash_def ValidateHash_def ParseHash_def hashPrefix_def hex_decodes_def
      is_hex_char_def lower_hex_def Let_def)

text \<open>
  The theorem at the plain hex of SHA-256 of "hello world" (accepted, prefixed) and at a
  reference that is too short (rejected).
\<close>

theorem NormalizeHash_keeps_case_witness:
  "NormalizeHash ''b94d27b9934d3e08a52e52d7da7dabfac484efe37a5380ee9088f7ace2efcde9''
     = Inr ''sha256:b94d27b9934d3e08a52e52d7da7dabfac484efe37a5380ee9088f7ace2efcde9'' \<and>
   (\<exists>e. NormalizeHash ''sha256:short'' = Inl e)"
  using NormalizeHash_keeps_case
    [of "''b94d27b9934d3e08a52e52d7da7dabfac484efe37a5380ee9088f7ace2efcde9''"
        "''sha256:b94d27b9934d3e08a52e52d7da7dabfac484efe37a5380ee9088f7ace2efcde9''"]
  by (simp add: NormalizeHash_def ValidateHash_def ParseHash_def hashPrefix_def hex_decodes_def
      is_hex_char_def Let_def)






lemma prefix_hex_not_normal:
  assumes "isHexString q" "length q < 64"
  shows "\<exists>e. NormalizeHash q = Inl e" and "stripCtxPrefix q = q"
proof -
  have "\<not> (\<exists>out. NormalizeHash q = Inr out)"
  proof
    assume "\<exists>out. NormalizeHash q = Inr out"
    then obtain out h where h: "length h = 64" "list_all is_hex_char h" "q = hashPrefix @ h \<or> q = h"
      by (auto simp: NormalizeHash_Inr_iff)
    then show False using assms(2) by auto
  qed
  then show "\<exists>e. NormalizeHash q = Inl e" by (cases "NormalizeHash q") auto
  have "\<not> prefix ''ctx://'' q"
  proof
    assume "prefix ''ctx://'' q"
    then have "CHR ''t'' \<in> set q" by (auto simp: prefix_def)
    with assms(1) show False by (auto simp: isHexString_def list_all_iff is_hex_char_def split: if_splits)
  qed
  then show "stripCtxPrefix q = q" by (simp add: stripCtxPrefix_def)
qed

lemma ResolveHash_scan:
  assumes "packs st = DirEntries names" "isHexString q" "4 \<le> length q" "length q < 64"
  shows "ResolveHash st q =
    (case filter (prefix q) names of
       [] \<Rightarrow> Inl (NoPackFound q)
     | [n] \<Rightarrow> Inr (hashPrefix @ n)
     | ms \<Rightarrow> Inl (AmbiguousPrefix q (length ms)))"
proof -
  obtain e where n: "NormalizeHash q = Inl e" using prefix_hex_not_normal(1) assms by blast
  have s: "stripCtxPrefix q = q" using prefix_hex_not_normal(2) assms by blast
  have l: "\<not> length q < 4" using assms(3) by simp
  show ?thesis
  proof (cases "filter (prefix q) names")
    case Nil
    then show ?thesis by (simp add: ResolveHash_def s n l assms(1,2))
  next
    case (Cons a ms)
    then show ?thesis by (cases ms) (simp_all add: ResolveHash_def s n l assms(1,2))
  qed
qed

lemma distinct_singleton_set:
  assumes "distinct xs" "set xs = {h}"
  shows "xs = [h]"
proof (cases xs)
  case Nil
  with assms show ?thesis by simp
next
  case (Cons a ys)
  with assms have a: "a = h" by auto
  have "set ys \<subseteq> {h}" using assms Cons by auto
  moreover have "h \<notin> set ys" using assms Cons a by auto
  ultimately have "ys = []" by (cases ys) auto
  with Cons a show ?thesis by simp
qed

lemma filter_unique:
  assumes d: "distinct names" and hn: "h \<in> set names" and ph: "P h"
    and u: "\<And>n. n \<in> set names \<Longrightarrow> P n \<Longrightarrow> n = h"
  shows "filter P names = [h]"
proof -
  have "set (filter P names) = {h}"
  proof (rule set_eqI)
    fix x
    show "x \<in> set (filter P names) \<longleftrightarrow> x \<in> {h}"
    proof
      assume "x \<in> set (filter P names)"
      then have "x \<in> set names" "P x" by simp_all
      then have "x = h" by (rule u)
      then show "x \<in> {h}" by simp
    next
      assume "x \<in> {h}"
      then have "x = h" by simp
      then show "x \<in> set (filter P names)" using hn ph by simp
    qed
  qed
  moreover have "distinct (filter P names)" using d by simp
  ultimately show ?thesis by (rule distinct_singleton_set [rotated])
qed

lemma filter_two:
  assumes "h \<in> set names" "P h" "n \<in> set names" "n \<noteq> h" "P n"
  shows "2 \<le> length (filter P names)"
proof -
  have "{h, n} \<subseteq> set (filter P names)" using assms by auto
  then have "card {h, n} \<le> card (set (filter P names))"
    by (intro card_mono) auto
  also have "\<dots> \<le> length (filter P names)" by (rule card_length)
  finally show ?thesis using assms(4) by simp
qed

lemma prefix_of_hex:
  assumes "ValidateHash (hashPrefix @ h)" "prefix q h" "4 \<le> length q"
  shows "isHexString q"
proof -
  have "list_all is_hex_char h" using assms(1) by (auto simp: ValidateHash_iff)
  moreover have "set q \<subseteq> set h" using assms(2) by (auto simp: prefix_def)
  ultimately show ?thesis using assms(3)
    by (auto simp: isHexString_def list_all_iff)
qed

text \<open>
  Claim C3. The registry is the \<^verbatim>\<open>packs/\<close> directory, its entries distinct names.
  For a registered pack with hex \<open>h\<close> (a well-formed hash) and a prefix \<open>q\<close> of \<open>h\<close> with
  \<open>4 \<le> |q| < 64\<close>: \<^verbatim>\<open>ResolveHash\<close> returns \<^verbatim>\<open>sha256:h\<close> when no other entry starts
  with \<open>q\<close>, and fails as ambiguous when another entry does. For a hexadecimal \<open>q\<close> of
  that length that no entry starts with, it fails with "no pack found".
\<close>

theorem ResolveHash_prefix:
  assumes "packs st = DirEntries names" "distinct names" "4 \<le> length q" "length q < 64"
  shows
   "(h \<in> set names \<and> ValidateHash (hashPrefix @ h) \<and> prefix q h \<longrightarrow>
       ((\<forall>n\<in>set names. prefix q n \<longrightarrow> n = h) \<longrightarrow> ResolveHash st q = Inr (hashPrefix @ h)) \<and>
       ((\<exists>n\<in>set names. n \<noteq> h \<and> prefix q n) \<longrightarrow>
          (\<exists>k\<ge>2. ResolveHash st q = Inl (AmbiguousPrefix q k)))) \<and>
    (isHexString q \<and> (\<forall>n\<in>set names. \<not> prefix q n) \<longrightarrow>
       ResolveHash st q = Inl (NoPackFound q))"
proof (intro conjI impI)
  assume a: "h \<in> set names \<and> ValidateHash (hashPrefix @ h) \<and> prefix q h"
  then have hx: "isHexString q" using prefix_of_hex assms(3) by blast
  note scan = ResolveHash_scan [OF assms(1) hx assms(3) assms(4)]
  {
    assume "\<forall>n\<in>set names. prefix q n \<longrightarrow> n = h"
    then have "\<And>n. n \<in> set names \<Longrightarrow> prefix q n \<Longrightarrow> n = h" by blast
    with assms(2) a have "filter (prefix q) names = [h]"
      by (intro filter_unique) simp_all
    then show "ResolveHash st q = Inr (hashPrefix @ h)" using scan by simp
  }
  {
    assume "\<exists>n\<in>set names. n \<noteq> h \<and> prefix q n"
    then obtain n where "n \<in> set names" "n \<noteq> h" "prefix q n" by blast
    then have "2 \<le> length (filter (prefix q) names)"
      using filter_two [of h names "prefix q" n] a by blast
    then obtain a b ms where "filter (prefix q) names = a # b # ms"
      by (cases "filter (prefix q) names"; simp; case_tac list; simp)
    then have "ResolveHash st q = Inl (AmbiguousPrefix q (length (a # b # ms)))"
      using scan by simp
    then show "\<exists>k\<ge>2. ResolveHash st q = Inl (AmbiguousPrefix q k)"
      by (intro exI [of _ "length (a # b # ms)"]) simp
  }
next
  assume b: "isHexString q \<and> (\<forall>n\<in>set names. \<not> prefix q n)"
  then have "filter (prefix q) names = []" by (auto simp: filter_empty_conv)
  then show "ResolveHash st q = Inl (NoPackFound q)"
    using ResolveHash_scan [OF assms(1) _ assms(3) assms(4)] b by simp
qed

text \<open>
  The theorem at the two packs of the repository's test of ambiguity: \<^verbatim>\<open>abcd1\<close>
  resolves, \<^verbatim>\<open>abcd\<close> is ambiguous, \<^verbatim>\<open>abcdef123456\<close> is not found.
\<close>

theorem ResolveHash_prefix_witness:
  "ResolveHash \<lparr>objects = (\<lambda>_. Absent), packs = DirEntries
       [''abcd111111111111111111111111111111111111111111111111111111111111'',
        ''abcd222222222222222222222222222222222222222222222222222222222222'']\<rparr> ''abcd1''
     = Inr ''sha256:abcd111111111111111111111111111111111111111111111111111111111111'' \<and>
   (\<exists>k\<ge>2. ResolveHash \<lparr>objects = (\<lambda>_. Absent), packs = DirEntries
       [''abcd111111111111111111111111111111111111111111111111111111111111'',
        ''abcd222222222222222222222222222222222222222222222222222222222222'']\<rparr> ''abcd''
     = Inl (AmbiguousPrefix ''abcd'' k)) \<and>
   ResolveHash \<lparr>objects = (\<lambda>_. Absent), packs = DirEntries
       [''abcd111111111111111111111111111111111111111111111111111111111111'',
        ''abcd222222222222222222222222222222222222222222222222222222222222'']\<rparr> ''abcdef123456''
     = Inl (NoPackFound ''abcdef123456'')"
proof -
  let ?names = "[''abcd111111111111111111111111111111111111111111111111111111111111'',
        ''abcd222222222222222222222222222222222222222222222222222222222222'']"
  let ?st = "\<lparr>objects = (\<lambda>_. Absent), packs = DirEntries ?names\<rparr>"
  let ?h = "''abcd111111111111111111111111111111111111111111111111111111111111''"
  have v: "ValidateHash (hashPrefix @ ?h)"
    by (simp add: ValidateHash_def ParseHash_def hashPrefix_def hex_decodes_def is_hex_char_def Let_def)
  have d: "distinct ?names" by simp
  have p: "packs ?st = DirEntries ?names" by simp
  have 1: "ResolveHash ?st ''abcd1'' = Inr (hashPrefix @ ?h)"
    using ResolveHash_prefix [OF p d, of "''abcd1''" ?h] v by simp
  have 2: "\<exists>k\<ge>2. ResolveHash ?st ''abcd'' = Inl (AmbiguousPrefix ''abcd'' k)"
    using ResolveHash_prefix [OF p d, of "''abcd''" ?h] v by simp
  have 3: "ResolveHash ?st ''abcdef123456'' = Inl (NoPackFound ''abcdef123456'')"
    using ResolveHash_prefix [OF p d, of "''abcdef123456''" ?h]
    by (simp add: isHexString_def is_hex_char_def)
  from 1 2 3 show ?thesis by (simp add: hashPrefix_def)
qed

section \<open>Properties of the blob store\<close>

lemma hex_small: "hex_of_digest 5 = ''0000000000000000000000000000000000000000000000000000000000000005''"
  by code_simp

lemma HashContent_hello:
  "HashContent length_digest ''hello'' =
     ''sha256:0000000000000000000000000000000000000000000000000000000000000005''"
  by (simp add: HashContent_def length_digest_def hex_small hashPrefix_def)

lemma HashContent_tampered:
  "HashContent length_digest ''tampered'' =
     ''sha256:0000000000000000000000000000000000000000000000000000000000000008''"
  by code_simp

text \<open>
  Claim C2. \<^verbatim>\<open>ReadBlob\<close> returns bytes only if their hash, formatted as a reference, is
  the reference asked for. For a reference with a blob path (a well-formed one): when the
  file is absent the call fails with "blob not found", and when the file holds bytes that
  hash to anything else it fails with the integrity error and returns no bytes.
\<close>

theorem ReadBlob_verified:
  "(ReadBlob sha st r = Inr b \<longrightarrow> HashContent sha b = r) \<and>
   (blobPath r = Inr path \<and> objects st path = Absent \<longrightarrow>
      ReadBlob sha st r = Inl (BlobNotFound (ShortHash r 12))) \<and>
   (blobPath r = Inr path \<and> objects st path = Content data \<and> HashContent sha data \<noteq> r \<longrightarrow>
      ReadBlob sha st r =
        Inl (IntegrityCheckFailed (ShortHash r 12) (ShortHash (HashContent sha data) 12)))"
  by (auto simp: ReadBlob_def Let_def split: sum.splits fnode.splits if_splits)

lemma blobPath_5:
  "blobPath ''sha256:0000000000000000000000000000000000000000000000000000000000000005'' =
     Inr ''objects/00/00000000000000000000000000000000000000000000000000000000000005''"
  by (simp add: blobPath_def ParseHash_def hashPrefix_def hex_decodes_def is_hex_char_def Let_def)

text \<open>
  The theorem with the stand-in digest: a blob that verifies, a missing blob, and a blob
  overwritten with other bytes.
\<close>

theorem ReadBlob_verified_witness:
  "ReadBlob length_digest
      \<lparr>objects = (\<lambda>_. Absent)
         (''objects/00/00000000000000000000000000000000000000000000000000000000000005'' :=
            Content ''hello''), packs = DirMissing\<rparr>
      ''sha256:0000000000000000000000000000000000000000000000000000000000000005'' = Inr ''hello'' \<and>
   HashContent length_digest ''hello'' =
      ''sha256:0000000000000000000000000000000000000000000000000000000000000005'' \<and>
   ReadBlob length_digest \<lparr>objects = (\<lambda>_. Absent), packs = DirMissing\<rparr>
      ''sha256:0000000000000000000000000000000000000000000000000000000000000005'' =
      Inl (BlobNotFound ''000000000000'') \<and>
   ReadBlob length_digest
      \<lparr>objects = (\<lambda>_. Absent)
         (''objects/00/00000000000000000000000000000000000000000000000000000000000005'' :=
            Content ''tampered''), packs = DirMissing\<rparr>
      ''sha256:0000000000000000000000000000000000000000000000000000000000000005'' =
      Inl (IntegrityCheckFailed ''000000000000'' ''000000000000'')"
proof -
  let ?r = "''sha256:0000000000000000000000000000000000000000000000000000000000000005''"
  let ?p = "''objects/00/00000000000000000000000000000000000000000000000000000000000005''"
  let ?s1 = "\<lparr>objects = (\<lambda>_. Absent)(?p := Content ''hello''), packs = DirMissing\<rparr>"
  let ?s2 = "\<lparr>objects = (\<lambda>_. Absent), packs = DirMissing\<rparr>"
  let ?s3 = "\<lparr>objects = (\<lambda>_. Absent)(?p := Content ''tampered''), packs = DirMissing\<rparr>"
  have sh: "ShortHash ?r 12 = ''000000000000''"
    "ShortHash ''sha256:0000000000000000000000000000000000000000000000000000000000000008'' 12 = ''000000000000''"
    by (simp_all add: ShortHash_def ParseHash_def hashPrefix_def hex_decodes_def is_hex_char_def Let_def)
  have 1: "ReadBlob length_digest ?s1 ?r = Inr ''hello''"
    by (simp add: ReadBlob_def blobPath_5 HashContent_hello)
  have 2: "HashContent length_digest ''hello'' = ?r"
    using ReadBlob_verified [of length_digest ?s1 ?r "''hello''"] 1 by simp
  have 3: "ReadBlob length_digest ?s2 ?r = Inl (BlobNotFound ''000000000000'')"
    using ReadBlob_verified [of length_digest ?s2 ?r _ ?p] blobPath_5 sh by simp
  have 4: "ReadBlob length_digest ?s3 ?r = Inl (IntegrityCheckFailed ''000000000000'' ''000000000000'')"
    using ReadBlob_verified [of length_digest ?s3 ?r _ ?p "''tampered''"] blobPath_5 sh
    by (simp add: HashContent_tampered)
  from 1 2 3 4 show ?thesis by simp
qed


section \<open>Properties of the replay engine\<close>

lemma ExecuteStep_Deterministic:
  "sr_Deterministic (ExecuteStep sha et s ex) = sp_Deterministic s"
  by (simp add: ExecuteStep_def Let_def split: option.splits sum.splits)

lemma ExecuteStep_Failed:
  "sr_Status (ExecuteStep sha et s ex) = StepFailed \<longleftrightarrow>
     (case ex (sp_Tool s) of None \<Rightarrow> True
      | Some e \<Rightarrow> isl (e (sp_Tool s) (sp_Parameters s)))"
  by (simp add: ExecuteStep_def Let_def split: option.splits sum.splits)

lemma ExecuteStep_Diverged:
  "sr_Status (ExecuteStep sha et s ex) = StepDiverged \<longleftrightarrow>
     (\<exists>e out. ex (sp_Tool s) = Some e \<and> e (sp_Tool s) (sp_Parameters s) = Inr out \<and>
        HashContent sha out \<noteq> sp_OutputRef s)"
  by (simp add: ExecuteStep_def Let_def split: option.splits sum.splits)

lemma ExecuteStep_Matched:
  "sr_Status (ExecuteStep sha et s ex) = StepMatched \<longleftrightarrow>
     (\<exists>e out. ex (sp_Tool s) = Some e \<and> e (sp_Tool s) (sp_Parameters s) = Inr out \<and>
        HashContent sha out = sp_OutputRef s)"
  by (simp add: ExecuteStep_def Let_def split: option.splits sum.splits)

lemma runSteps_eq:
  "runSteps sha et ex steps (rs, f, d) =
     (rs @ map (\<lambda>s. ExecuteStep sha et s ex) steps,
      f \<or> (\<exists>s\<in>set steps. sr_Status (ExecuteStep sha et s ex) = StepFailed),
      d \<or> (\<exists>s\<in>set steps. sr_Status (ExecuteStep sha et s ex) = StepDiverged \<and>
               sr_Deterministic (ExecuteStep sha et s ex)))"
proof (induction steps arbitrary: rs f d)
  case Nil
  show ?case by simp
next
  case (Cons s steps)
  show ?case
    by (cases "sr_Status (ExecuteStep sha et s ex)")
       (auto simp: Cons.IH Let_def)
qed

lemma Replay_report:
  assumes "LoadPack sha unm st ref = Inr p"
  shows "Replay sha unm et gq goos t0 t1 world st ref =
     Inr \<lparr>rp_PackHash = pk_Hash p,
          rp_Fidelity =
            (if \<exists>s\<in>set (pk_Steps p).
                  sr_Status (ExecuteStep sha et s (DefaultExecutors world)) = StepFailed
             then FidelityFailed
             else if \<exists>s\<in>set (pk_Steps p).
                  sr_Status (ExecuteStep sha et s (DefaultExecutors world)) = StepDiverged \<and>
                  sr_Deterministic (ExecuteStep sha et s (DefaultExecutors world))
             then FidelityDegraded else FidelityExact),
          rp_Steps = map (\<lambda>s. ExecuteStep sha et s (DefaultExecutors world)) (pk_Steps p),
          rp_Drift = checkInputs gq st (pk_Inputs p) (checkEnvironmentDrift goos p),
          rp_StartTime = t0, rp_EndTime = t1\<rparr>"
  using assms by (simp add: Replay_def Let_def runSteps_eq)

text \<open>
  Claim C4. When the pack loads, \<^verbatim>\<open>Replay\<close> returns a report, and its fidelity is:
  failed if some step's tool has no executor or its executor returns an error; otherwise
  degraded if some step with \<^verbatim>\<open>deterministic = true\<close> ran and gave an output whose hash
  differs from the recorded \<^verbatim>\<open>output_ref\<close>; otherwise exact. So a replay whose only
  divergent steps are not deterministic is exact.
\<close>

theorem Replay_fidelity:
  assumes "LoadPack sha unm st ref = Inr p"
  shows "\<exists>rep. Replay sha unm et gq goos t0 t1 world st ref = Inr rep \<and>
     rp_Fidelity rep =
       (if \<exists>s\<in>set (pk_Steps p).
             (case DefaultExecutors world (sp_Tool s) of
                None \<Rightarrow> True
              | Some executor \<Rightarrow> isl (executor (sp_Tool s) (sp_Parameters s)))
        then FidelityFailed
        else if \<exists>s\<in>set (pk_Steps p). sp_Deterministic s \<and>
             (\<exists>executor output. DefaultExecutors world (sp_Tool s) = Some executor \<and>
                executor (sp_Tool s) (sp_Parameters s) = Inr output \<and>
                HashContent sha output \<noteq> sp_OutputRef s)
        then FidelityDegraded
        else FidelityExact)"
proof -
  let ?run = "\<lambda>s. ExecuteStep sha et s (DefaultExecutors world)"
  have failed: "(\<exists>s\<in>set (pk_Steps p). sr_Status (?run s) = StepFailed) \<longleftrightarrow>
      (\<exists>s\<in>set (pk_Steps p).
             (case DefaultExecutors world (sp_Tool s) of
                None \<Rightarrow> True
              | Some executor \<Rightarrow> isl (executor (sp_Tool s) (sp_Parameters s))))"
    by (simp only: ExecuteStep_Failed)
  have diverged: "(\<exists>s\<in>set (pk_Steps p). sr_Status (?run s) = StepDiverged \<and>
          sr_Deterministic (?run s)) \<longleftrightarrow>
      (\<exists>s\<in>set (pk_Steps p). sp_Deterministic s \<and>
             (\<exists>executor output. DefaultExecutors world (sp_Tool s) = Some executor \<and>
                executor (sp_Tool s) (sp_Parameters s) = Inr output \<and>
                HashContent sha output \<noteq> sp_OutputRef s))"
    by (simp only: ExecuteStep_Diverged ExecuteStep_Deterministic) blast
  show ?thesis
    unfolding Replay_report [OF assms] failed diverged
    by (simp only: sum.inject ReplayReport.simps simp_thms ex_simps)
qed

lemma checkInputs_keeps: "x \<in> set drift \<Longrightarrow> x \<in> set (checkInputs gq st inputs drift)"
  by (induction inputs arbitrary: drift) auto

lemma checkInputs_missing:
  assumes "i \<in> set inputs" "\<not> BlobExists st (in_ContentRef i)"
  shows "\<lparr>de_Type = ''missing_input'',
          de_Description = ''input '' @ gq (in_Name i) @ '' not found in store'',
          de_Expected = ShortHash (in_ContentRef i) 12, de_Actual = []\<rparr>
         \<in> set (checkInputs gq st inputs drift)"
  using assms
proof (induction inputs arbitrary: drift)
  case Nil
  then show ?case by simp
next
  case (Cons a inputs)
  show ?case
  proof (cases "i = a")
    case True
    with Cons.prems show ?thesis by (simp add: checkInputs_keeps)
  next
    case False
    with Cons.prems have "i \<in> set inputs" by simp
    from Cons.IH [OF this Cons.prems(2)] show ?thesis by simp
  qed
qed

text \<open>
  Claim C9. The results of the steps are those of \<^verbatim>\<open>ExecuteStep\<close> on the steps of the
  pack, in which the store has no part; the fidelity is a function of these results alone;
  every recorded input whose blob is missing has its \<^verbatim>\<open>missing_input\<close> entry in the
  drift of the report; and when every step matched the fidelity is exact, whatever the
  inputs.
\<close>

theorem Replay_inputs_do_not_count:
  assumes "LoadPack sha unm st ref = Inr p"
  shows "\<exists>rep. Replay sha unm et gq goos t0 t1 world st ref = Inr rep \<and>
     rp_Steps rep = map (\<lambda>s. ExecuteStep sha et s (DefaultExecutors world)) (pk_Steps p) \<and>
     rp_Fidelity rep =
       (if \<exists>r\<in>set (rp_Steps rep). sr_Status r = StepFailed then FidelityFailed
        else if \<exists>r\<in>set (rp_Steps rep). sr_Status r = StepDiverged \<and> sr_Deterministic r
        then FidelityDegraded else FidelityExact) \<and>
     (\<forall>i\<in>set (pk_Inputs p). \<not> BlobExists st (in_ContentRef i) \<longrightarrow>
        \<lparr>de_Type = ''missing_input'',
         de_Description = ''input '' @ gq (in_Name i) @ '' not found in store'',
         de_Expected = ShortHash (in_ContentRef i) 12, de_Actual = []\<rparr> \<in> set (rp_Drift rep)) \<and>
     ((\<forall>r\<in>set (rp_Steps rep). sr_Status r = StepMatched) \<longrightarrow> rp_Fidelity rep = FidelityExact)"
proof -
  let ?run = "\<lambda>s. ExecuteStep sha et s (DefaultExecutors world)"
  let ?fid = "if \<exists>s\<in>set (pk_Steps p). sr_Status (?run s) = StepFailed then FidelityFailed
     else if \<exists>s\<in>set (pk_Steps p). sr_Status (?run s) = StepDiverged \<and> sr_Deterministic (?run s)
     then FidelityDegraded else FidelityExact"
  let ?rep = "\<lparr>rp_PackHash = pk_Hash p, rp_Fidelity = ?fid,
     rp_Steps = map ?run (pk_Steps p),
     rp_Drift = checkInputs gq st (pk_Inputs p) (checkEnvironmentDrift goos p),
     rp_StartTime = t0, rp_EndTime = t1\<rparr>"
  have r: "Replay sha unm et gq goos t0 t1 world st ref = Inr ?rep"
    by (rule Replay_report [OF assms])
  have s: "rp_Steps ?rep = map ?run (pk_Steps p)" by simp
  have f: "rp_Fidelity ?rep =
       (if \<exists>r\<in>set (rp_Steps ?rep). sr_Status r = StepFailed then FidelityFailed
        else if \<exists>r\<in>set (rp_Steps ?rep). sr_Status r = StepDiverged \<and> sr_Deterministic r
        then FidelityDegraded else FidelityExact)"
    by (simp add: Bex_def) blast
  have d: "\<forall>i\<in>set (pk_Inputs p). \<not> BlobExists st (in_ContentRef i) \<longrightarrow>
        \<lparr>de_Type = ''missing_input'',
         de_Description = ''input '' @ gq (in_Name i) @ '' not found in store'',
         de_Expected = ShortHash (in_ContentRef i) 12, de_Actual = []\<rparr> \<in> set (rp_Drift ?rep)"
  proof (intro ballI impI)
    fix i assume "i \<in> set (pk_Inputs p)" "\<not> BlobExists st (in_ContentRef i)"
    from checkInputs_missing [OF this, of gq "checkEnvironmentDrift goos p"]
    show "\<lparr>de_Type = ''missing_input'',
         de_Description = ''input '' @ gq (in_Name i) @ '' not found in store'',
         de_Expected = ShortHash (in_ContentRef i) 12, de_Actual = []\<rparr> \<in> set (rp_Drift ?rep)"
      by (simp only: ReplayReport.simps)
  qed
  have m: "(\<forall>r\<in>set (rp_Steps ?rep). sr_Status r = StepMatched) \<longrightarrow> rp_Fidelity ?rep = FidelityExact"
    by (simp add: Ball_def)
  show ?thesis by (rule exI [of _ ?rep]) (intro conjI r s f d m)
qed

lemma length_ex_blob: "length ex_blob = 867"
  unfolding ex_blob_def by code_simp

lemma hex_of_867:
  "hex_of_digest 867 = ''0000000000000000000000000000000000000000000000000000000000000363''"
  by code_simp

lemma HashContent_ex_blob: "HashContent length_digest ex_blob = ex_hash"
  by (simp add: HashContent_def length_digest_def length_ex_blob hex_of_867 hashPrefix_def ex_hash_def)

lemma ParseHash_ex_hash:
  "ParseHash ex_hash = Inr (''sha256'', ''0000000000000000000000000000000000000000000000000000000000000363'')"
  by (simp add: ex_hash_def ParseHash_def hashPrefix_def hex_decodes_def is_hex_char_def Let_def)

lemma LoadPack_ex: "LoadPack length_digest ex_unmarshal ex_store ex_hash = Inr (ex_manifest\<lparr>pk_Hash := ex_hash\<rparr>)"
proof -
  have r: "ResolveHash ex_store ex_hash = Inr ex_hash"
    by (simp add: ResolveHash_def stripCtxPrefix_def NormalizeHash_def ValidateHash_def
        ParseHash_ex_hash) (simp add: ex_hash_def hashPrefix_def)
  have b: "ReadBlob length_digest ex_store ex_hash = Inr ex_blob"
    by (simp add: ReadBlob_def blobPath_def ParseHash_ex_hash ex_store_def HashContent_ex_blob)
  show ?thesis
    by (simp add: LoadPack_def r b ex_unmarshal_def)
qed

lemma hex_of_7: "hex_of_digest 7 = ''0000000000000000000000000000000000000000000000000000000000000007''"
  by code_simp

lemma hex_of_13: "hex_of_digest 13 = ''000000000000000000000000000000000000000000000000000000000000000d''"
  by code_simp

lemma steps_ex: "pk_Steps (ex_manifest\<lparr>pk_Hash := ex_hash\<rparr>) =
   [\<lparr>sp_Index = 0, sp_Type = ''tool_call'', sp_Tool = ''read_file'',
         sp_Parameters = Some [(''path'', JStr ''readme.md'')],
         sp_OutputRef = ''sha256:000000000000000000000000000000000000000000000000000000000000000d'',
         sp_Deterministic = True, sp_Timestamp = ''2026-02-10T11:59:00Z''\<rparr>]"
  by (simp add: ex_manifest_def)

text \<open>
  The theorem on the example store: the file that the one deterministic step reads has
  changed, and the replay is degraded.
\<close>

theorem Replay_fidelity_witness:
  "\<exists>rep. Replay length_digest ex_unmarshal (\<lambda>_. ''error'') quote ''darwin''
       ''2026-02-11T09:00:00Z'' ''2026-02-11T09:00:01Z''
       ((\<lambda>_. Absent)(''readme.md'' := Content ''changed'')) ex_store ex_hash = Inr rep \<and>
     rp_Fidelity rep = FidelityDegraded"
  using Replay_fidelity [OF LoadPack_ex, of "\<lambda>_. ''error''" quote "''darwin''"
      "''2026-02-11T09:00:00Z''" "''2026-02-11T09:00:01Z''"
      "(\<lambda>_. Absent)(''readme.md'' := Content ''changed'')"]
  by (simp add: steps_ex DefaultExecutors_def HashContent_def length_digest_def hex_of_7 hashPrefix_def)

lemma inputs_ex: "pk_Inputs (ex_manifest\<lparr>pk_Hash := ex_hash\<rparr>) =
   [\<lparr>in_Name = ''readme.md'',
         in_ContentRef = ''sha256:000000000000000000000000000000000000000000000000000000000000000d'',
         in_Size = 13\<rparr>]"
  by (simp add: ex_manifest_def)

lemma input_absent_ex:
  "\<not> BlobExists ex_store ''sha256:000000000000000000000000000000000000000000000000000000000000000d''"
  by (simp add: BlobExists_def blobPath_def ParseHash_def hashPrefix_def hex_decodes_def
      is_hex_char_def Let_def ex_store_def)

text \<open>
  The theorem on the example store, where the blob of the recorded input is absent: the
  step matches, the replay is exact, and the drift names the missing input.
\<close>

theorem Replay_inputs_do_not_count_witness:
  "\<exists>rep. Replay length_digest ex_unmarshal (\<lambda>_. ''error'') quote ''darwin''
       ''2026-02-11T09:00:00Z'' ''2026-02-11T09:00:01Z''
       ((\<lambda>_. Absent)(''readme.md'' := Content ''# Hello World'')) ex_store ex_hash = Inr rep \<and>
     rp_Fidelity rep = FidelityExact \<and>
     \<lparr>de_Type = ''missing_input'',
      de_Description = ''input '' @ quote ''readme.md'' @ '' not found in store'',
      de_Expected = ''000000000000'', de_Actual = []\<rparr> \<in> set (rp_Drift rep)"
proof -
  let ?world = "(\<lambda>_. Absent)(''readme.md'' := Content ''# Hello World'')"
  obtain rep where rep:
    "Replay length_digest ex_unmarshal (\<lambda>_. ''error'') quote ''darwin''
       ''2026-02-11T09:00:00Z'' ''2026-02-11T09:00:01Z'' ?world ex_store ex_hash = Inr rep"
    and steps: "rp_Steps rep = map (\<lambda>s. ExecuteStep length_digest (\<lambda>_. ''error'') s (DefaultExecutors ?world))
       (pk_Steps (ex_manifest\<lparr>pk_Hash := ex_hash\<rparr>))"
    and drift: "\<forall>i\<in>set (pk_Inputs (ex_manifest\<lparr>pk_Hash := ex_hash\<rparr>)).
        \<not> BlobExists ex_store (in_ContentRef i) \<longrightarrow>
        \<lparr>de_Type = ''missing_input'',
         de_Description = ''input '' @ quote (in_Name i) @ '' not found in store'',
         de_Expected = ShortHash (in_ContentRef i) 12, de_Actual = []\<rparr> \<in> set (rp_Drift rep)"
    and exact: "(\<forall>r\<in>set (rp_Steps rep). sr_Status r = StepMatched) \<longrightarrow> rp_Fidelity rep = FidelityExact"
    using Replay_inputs_do_not_count [OF LoadPack_ex, of "\<lambda>_. ''error''" quote "''darwin''"
      "''2026-02-11T09:00:00Z''" "''2026-02-11T09:00:01Z''" ?world]
    by blast
  have "\<forall>r\<in>set (rp_Steps rep). sr_Status r = StepMatched"
    unfolding steps steps_ex
    by (simp add: ExecuteStep_def DefaultExecutors_def HashContent_def length_digest_def hex_of_13
        hashPrefix_def)
  with exact have e: "rp_Fidelity rep = FidelityExact" by blast
  have sh: "ShortHash ''sha256:000000000000000000000000000000000000000000000000000000000000000d'' 12 = ''000000000000''"
    by (simp add: ShortHash_def ParseHash_def hashPrefix_def hex_decodes_def is_hex_char_def Let_def)
  have d: "\<lparr>de_Type = ''missing_input'',
      de_Description = ''input '' @ quote ''readme.md'' @ '' not found in store'',
      de_Expected = ''000000000000'', de_Actual = []\<rparr> \<in> set (rp_Drift rep)"
    using drift input_absent_ex unfolding inputs_ex by (simp add: sh)
  from rep e d show ?thesis by blast
qed

end
